theory Spec2Isabelle
  imports Main "HOL-Library.Multiset" "HOL-Library.Log_Nat"
begin

section \<open>Content Hoarder: data model\<close>

text \<open>
  The embedding follows \<^verbatim>\<open>src/index.ts\<close>. A \<^verbatim>\<open>ContentPiece\<close> and an
  \<^verbatim>\<open>Article\<close> are the two interfaces of the source; the field names carry a prefix
  because both interfaces have an \<^verbatim>\<open>id\<close>, a \<^verbatim>\<open>title\<close> and a \<^verbatim>\<open>content\<close>.
  Timestamps are the ISO strings the source stores. The optional \<^verbatim>\<open>summary\<close> of a
  piece and the \<^verbatim>\<open>instructions\<close> of an article (copied from an input field that may
  be absent) are options. The version is a JavaScript number that the code sets to 1
  and increments by 1: an integer, incremented as a double (\<open>js_incr\<close> below).
\<close>

datatype inspirationType = Single | Feed

record ContentPiece =
  c_id :: string
  c_title :: string
  c_source :: string
  c_content :: string
  c_summary :: "string option"
  c_tags :: "string list"
  c_addedAt :: string
  c_inspirationType :: inspirationType

record Article =
  a_id :: string
  a_title :: string
  a_content :: string
  a_sourceContentIds :: "string list"
  a_instructions :: "string option"
  a_version :: int
  a_createdAt :: string
  a_updatedAt :: string

text \<open>
  The storage proxy holds values of type \<^verbatim>\<open>unknown\<close>. The code writes three kinds of
  value: a content piece, an article, and an index (an array of ids). Two more kinds
  come from \<^verbatim>\<open>updateArticle\<close> when the key it reads holds no article (the id
  \<^verbatim>\<open>index\<close> names the key of the article index): \<open>VEdited v content updatedAt\<close> is the
  value \<open>v\<close> with the properties \<^verbatim>\<open>content\<close>, \<^verbatim>\<open>version\<close> (\<^verbatim>\<open>NaN\<close>, from
  \<^verbatim>\<open>undefined + 1\<close>) and \<^verbatim>\<open>updatedAt\<close> set on it, and \<open>VArray\<close> is an array that
  holds \<^verbatim>\<open>undefined\<close> among its elements (the article index after the id of such a
  value was appended). An array of strings only is always a \<open>VIds\<close>.
\<close>

datatype jsval = VPiece ContentPiece | VArticle Article | VIds "string list"
  | VArray "string option list" | VEdited jsval "string option" string

text \<open>
  An exception is an \<^verbatim>\<open>Error\<close> with its message (a \<^verbatim>\<open>TypeError\<close> is one), or any other
  thrown value; the dispatcher tells the two apart with \<^verbatim>\<open>instanceof Error\<close>.
\<close>

datatype exn = Error string | Thrown

text \<open>
  \<^verbatim>\<open>ActionResult\<close>: the response mode and two optional objects. An object is a list of
  named JSON values, in the order the source writes its properties.
\<close>

datatype json = JStr string | JNum int | JList "json list" | JObj "(string \<times> json) list"
  | JUndefined | JNaN

datatype responseMode = Template | Passthrough

record ActionResult =
  responseMode :: responseMode
  agentData :: "(string \<times> json) list option"
  userContent :: "(string \<times> json) list option"

text \<open>
  \<^verbatim>\<open>ActionInput\<close> is an untyped record in the source; every handler reads its fields
  through a cast. The model keeps the fields the handlers read, each absent
  (\<open>None\<close>, JavaScript's \<^verbatim>\<open>undefined\<close>) or of the type the cast names. A number is
  a JavaScript number: a finite double, given by its rational value, \<^verbatim>\<open>NaN\<close> or an
  infinity (\<^verbatim>\<open>-0\<close> is not told apart from \<^verbatim>\<open>0\<close>: both are falsy and both are the
  bound 0 of a slice).
\<close>

datatype jsnum = Num rat | NaN | PosInf | NegInf

record ActionInput =
  in_url :: "string option"
  in_tags :: "string list option"
  in_limit :: "jsnum option"
  in_offset :: "jsnum option"
  in_contentId :: "string option"
  in_contentIds :: "string list option"
  in_instructions :: "string option"
  in_title :: "string option"
  in_articleId :: "string option"
  in_additionalContentIds :: "string list option"

text \<open>One item of a parsed feed, as \<^verbatim>\<open>rss-parser\<close> returns it: every field may be missing.\<close>

record rss_item =
  r_title :: "string option"
  r_contentSnippet :: "string option"
  r_content :: "string option"
  r_summary :: "string option"
  r_link :: "string option"

section \<open>The world outside the plugin\<close>

text \<open>
  The collaborators that are not code of the repository are parameters, collected in
  one record. Each effect of a run (a storage call, a random id, a reading of the clock,
  a network fetch, a model call) happens at a tick, and the tick advances with it, so an
  answer may differ from one call to the next:
  \<^item> \<open>storage_fault\<close>: the storage proxy is remote and a call may reject; \<open>None\<close> at a
    tick means the call made then is answered. The \<^verbatim>\<open>MockStorage\<close> of the test script
    never rejects.
  \<^item> \<open>randomBytes\<close>: \<^verbatim>\<open>crypto.randomBytes(8).toString('hex')\<close>.
  \<^item> \<open>toISOString\<close>: \<^verbatim>\<open>new Date().toISOString()\<close>; \<open>getTime\<close>:
    \<^verbatim>\<open>new Date(s).getTime()\<close>, for the strings \<open>toISOString\<close> produces (never \<^verbatim>\<open>NaN\<close>).
  \<^item> \<open>parseURL\<close>: \<^verbatim>\<open>rssParser.parseURL(url)\<close>, the items of the feed or an exception.
  \<^item> \<open>fetch_page\<close>: the title and the text \<^verbatim>\<open>fetchSingleContent\<close> extracts with
    \<^verbatim>\<open>fetch\<close> and \<^verbatim>\<open>node-html-parser\<close>, or the exception of the fetch.
  \<^item> \<open>process_env\<close>: \<^verbatim>\<open>process.env.OPENAI_API_KEY\<close>.
  \<^item> \<open>chat_completion\<close>: \<^verbatim>\<open>openai.chat.completions.create\<close> for a system message and
    a prompt, reduced to \<^verbatim>\<open>choices[0]?.message?.content\<close> (\<open>None\<close> when it is missing).
  \<^item> \<open>match_h1\<close>: the first group of \<^verbatim>\<open>/^#\s+(.+)$/m\<close> in a text, if it matches.
\<close>

record env =
  storage_fault :: "nat \<Rightarrow> exn option"
  randomBytes :: "nat \<Rightarrow> string"
  toISOString :: "nat \<Rightarrow> string"
  getTime :: "string \<Rightarrow> int"
  parseURL :: "string \<Rightarrow> nat \<Rightarrow> exn + rss_item list"
  fetch_page :: "string \<Rightarrow> nat \<Rightarrow> exn + string \<times> string"
  process_env :: "string option"
  chat_completion :: "string \<Rightarrow> string \<Rightarrow> nat \<Rightarrow> exn + string option"
  match_h1 :: "string \<Rightarrow> string option"

text \<open>
  The state a run changes: the key-value map behind the storage proxy (the \<^verbatim>\<open>data\<close>
  map of \<^verbatim>\<open>MockStorage\<close>) and the tick.
\<close>

record world =
  data :: "string \<Rightarrow> jsval option"
  tick :: nat

text \<open>
  An \<^verbatim>\<open>async\<close> function is a computation on the world that returns a value or an
  exception; the world it leaves is returned in both cases, so what was written before
  an exception stays written.
\<close>

type_synonym 'a io = "world \<Rightarrow> (exn + 'a) \<times> world"

definition io_return :: "'a \<Rightarrow> 'a io" where
  "io_return x w = (Inr x, w)"

definition io_throw :: "exn \<Rightarrow> 'a io" where
  "io_throw e w = (Inl e, w)"

definition io_bind :: "'a io \<Rightarrow> ('a \<Rightarrow> 'b io) \<Rightarrow> 'b io" where
  "io_bind m f w = (case m w of (Inl e, w') \<Rightarrow> (Inl e, w') | (Inr x, w') \<Rightarrow> f x w')"

definition io_catch :: "'a io \<Rightarrow> (exn \<Rightarrow> 'a io) \<Rightarrow> 'a io" where
  "io_catch m h w = (case m w of (Inl e, w') \<Rightarrow> h e w' | (Inr x, w') \<Rightarrow> (Inr x, w'))"

definition next_tick :: "world \<Rightarrow> world" where
  "next_tick w = w\<lparr>tick := Suc (tick w)\<rparr>"

text \<open>An effect that reads an oracle of the environment at the current tick.\<close>

definition ask :: "(nat \<Rightarrow> 'a) \<Rightarrow> 'a io" where
  "ask f w = (Inr (f (tick w)), next_tick w)"

definition ask_result :: "(nat \<Rightarrow> exn + 'a) \<Rightarrow> 'a io" where
  "ask_result f w = (f (tick w), next_tick w)"

subsection \<open>The storage proxy\<close>

text \<open>
  \<^verbatim>\<open>get\<close>, \<^verbatim>\<open>set\<close> and \<^verbatim>\<open>delete\<close> as \<^verbatim>\<open>MockStorage\<close> implements them on its map:
  \<^verbatim>\<open>get\<close> answers \<^verbatim>\<open>null\<close> (\<open>None\<close>) for a missing key, \<^verbatim>\<open>delete\<close> answers whether the
  key was there. A call that the environment rejects throws and changes nothing. The
  map holds values: an object the code changes after it has read it is changed in the
  store by the \<^verbatim>\<open>set\<close> that follows, as with a remote proxy. (\<^verbatim>\<open>MockStorage\<close> hands out
  references; the one handler that changes an object it has read, \<^verbatim>\<open>updateArticle\<close>,
  stores it again before it returns.)
\<close>

definition storage_get :: "env \<Rightarrow> string \<Rightarrow> jsval option io" where
  "storage_get E k w =
     (case storage_fault E (tick w) of
        Some e \<Rightarrow> (Inl e, next_tick w)
      | None \<Rightarrow> (Inr (data w k), next_tick w))"

definition storage_set :: "env \<Rightarrow> string \<Rightarrow> jsval \<Rightarrow> unit io" where
  "storage_set E k v w =
     (case storage_fault E (tick w) of
        Some e \<Rightarrow> (Inl e, next_tick w)
      | None \<Rightarrow> (Inr (), next_tick (w\<lparr>data := (data w)(k \<mapsto> v)\<rparr>)))"

definition storage_delete :: "env \<Rightarrow> string \<Rightarrow> bool io" where
  "storage_delete E k w =
     (case storage_fault E (tick w) of
        Some e \<Rightarrow> (Inl e, next_tick w)
      | None \<Rightarrow> (Inr (data w k \<noteq> None), next_tick (w\<lparr>data := (data w)(k := None)\<rparr>)))"

section \<open>Values as the code reads them\<close>

text \<open>
  \<^verbatim>\<open>a || b\<close> on strings that may be missing: the empty string is falsy, like
  \<^verbatim>\<open>undefined\<close>. \<open>js_str\<close> is what a template literal prints.
\<close>

definition truthy :: "string option \<Rightarrow> bool" where
  "truthy s = (case s of None \<Rightarrow> False | Some t \<Rightarrow> t \<noteq> [])"

definition or_str :: "string option \<Rightarrow> string \<Rightarrow> string" where
  "or_str s d = (case s of None \<Rightarrow> d | Some t \<Rightarrow> if t = [] then d else t)"

definition or_opt :: "string option \<Rightarrow> string option \<Rightarrow> string option" where
  "or_opt s d = (if truthy s then s else d)"

definition js_str :: "string option \<Rightarrow> string" where
  "js_str s = (case s of None \<Rightarrow> ''undefined'' | Some t \<Rightarrow> t)"

text \<open>
  The properties the code reads from a stored value, whatever the value is: a property
  the value does not have reads as \<^verbatim>\<open>undefined\<close>. An edited value has the three
  properties the edit set and otherwise those of the value it was made from. The
  version is given as the JSON value a result carries for it.
\<close>

fun prop_id :: "jsval \<Rightarrow> string option" where
  "prop_id (VPiece c) = Some (c_id c)"
| "prop_id (VArticle a) = Some (a_id a)"
| "prop_id (VEdited v content updatedAt) = prop_id v"
| "prop_id _ = None"

fun prop_title :: "jsval \<Rightarrow> string option" where
  "prop_title (VPiece c) = Some (c_title c)"
| "prop_title (VArticle a) = Some (a_title a)"
| "prop_title (VEdited v content updatedAt) = prop_title v"
| "prop_title _ = None"

fun prop_source :: "jsval \<Rightarrow> string option" where
  "prop_source (VPiece c) = Some (c_source c)"
| "prop_source (VEdited v content updatedAt) = prop_source v"
| "prop_source _ = None"

fun prop_content :: "jsval \<Rightarrow> string option" where
  "prop_content (VPiece c) = Some (c_content c)"
| "prop_content (VArticle a) = Some (a_content a)"
| "prop_content (VEdited v content updatedAt) = content"
| "prop_content _ = None"

fun prop_createdAt :: "jsval \<Rightarrow> string option" where
  "prop_createdAt (VArticle a) = Some (a_createdAt a)"
| "prop_createdAt (VEdited v content updatedAt) = prop_createdAt v"
| "prop_createdAt _ = None"

fun prop_updatedAt :: "jsval \<Rightarrow> string option" where
  "prop_updatedAt (VArticle a) = Some (a_updatedAt a)"
| "prop_updatedAt (VEdited v content updatedAt) = Some updatedAt"
| "prop_updatedAt _ = None"

fun prop_version :: "jsval \<Rightarrow> json" where
  "prop_version (VArticle a) = JNum (a_version a)"
| "prop_version (VEdited v content updatedAt) = JNaN"
| "prop_version _ = JUndefined"

definition json_str :: "string option \<Rightarrow> json" where
  "json_str s = (case s of None \<Rightarrow> JUndefined | Some t \<Rightarrow> JStr t)"

text \<open>
  The elements of a value that is an array (an edited array is still one), and the
  array with given elements.
\<close>

fun elements_of :: "jsval \<Rightarrow> string option list option" where
  "elements_of (VIds ids) = Some (map Some ids)"
| "elements_of (VArray es) = Some es"
| "elements_of (VEdited v content updatedAt) = elements_of v"
| "elements_of _ = None"

definition array_value :: "string option list \<Rightarrow> jsval" where
  "array_value es = (if None \<in> set es then VArray es else VIds (map the es))"

section \<open>Storage keys and storage helpers\<close>

text \<open>\<^verbatim>\<open>STORAGE_KEYS\<close>: a record lives under its prefix followed by its id.\<close>

definition STORAGE_KEYS_content :: "string \<Rightarrow> string" where
  "STORAGE_KEYS_content i = ''content:'' @ i"

definition STORAGE_KEYS_contentIndex :: string where
  "STORAGE_KEYS_contentIndex = ''content:index''"

definition STORAGE_KEYS_article :: "string \<Rightarrow> string" where
  "STORAGE_KEYS_article i = ''article:'' @ i"

definition STORAGE_KEYS_articleIndex :: string where
  "STORAGE_KEYS_articleIndex = ''article:index''"

text \<open>
  The casts of the source are not checked. \<^verbatim>\<open>getContentIndex\<close> returns what the key
  holds, or the empty array for \<^verbatim>\<open>null\<close>; the value is used as an array afterwards.
  Every caller's first use of it as an array (\<^verbatim>\<open>includes\<close>, \<^verbatim>\<open>filter\<close>,
  \<^verbatim>\<open>for ... of\<close>) throws a \<^verbatim>\<open>TypeError\<close> when it is an object: \<open>array_of\<close> is that
  use for the content index, whose key holds an array of strings or a value that is no
  array (no handler writes another array under a content key); \<open>elements\<close> is that use
  for the article index, which can come to hold \<^verbatim>\<open>undefined\<close> among its ids.
\<close>

definition array_of :: "string \<Rightarrow> jsval \<Rightarrow> string list io" where
  "array_of what v = (case v of VIds ids \<Rightarrow> io_return ids | _ \<Rightarrow> io_throw (Error what))"

definition getContentIndex :: "env \<Rightarrow> jsval io" where
  "getContentIndex E =
     io_bind (storage_get E STORAGE_KEYS_contentIndex) (\<lambda>index.
       io_return (case index of None \<Rightarrow> VIds [] | Some v \<Rightarrow> v))"

definition setContentIndex :: "env \<Rightarrow> string list \<Rightarrow> unit io" where
  "setContentIndex E index = storage_set E STORAGE_KEYS_contentIndex (VIds index)"

definition getContent :: "env \<Rightarrow> string \<Rightarrow> jsval option io" where
  "getContent E i = storage_get E (STORAGE_KEYS_content i)"

definition setContent :: "env \<Rightarrow> ContentPiece \<Rightarrow> unit io" where
  "setContent E content =
     io_bind (storage_set E (STORAGE_KEYS_content (c_id content)) (VPiece content)) (\<lambda>_.
     io_bind (getContentIndex E) (\<lambda>index.
     io_bind (array_of ''index.includes is not a function'' index) (\<lambda>ids.
       if c_id content \<notin> set ids then setContentIndex E (ids @ [c_id content])
       else io_return ())))"

definition deleteContentById :: "env \<Rightarrow> string \<Rightarrow> bool io" where
  "deleteContentById E i =
     io_bind (storage_delete E (STORAGE_KEYS_content i)) (\<lambda>deleted.
       if deleted then
         io_bind (getContentIndex E) (\<lambda>index.
         io_bind (array_of ''index.filter is not a function'' index) (\<lambda>ids.
         io_bind (setContentIndex E (filter (\<lambda>j. j \<noteq> i) ids)) (\<lambda>_.
           io_return deleted)))
       else io_return deleted)"

definition getArticleIndex :: "env \<Rightarrow> jsval io" where
  "getArticleIndex E =
     io_bind (storage_get E STORAGE_KEYS_articleIndex) (\<lambda>index.
       io_return (case index of None \<Rightarrow> VIds [] | Some v \<Rightarrow> v))"

definition elements :: "string \<Rightarrow> jsval \<Rightarrow> string option list io" where
  "elements what v = (case elements_of v of Some es \<Rightarrow> io_return es | None \<Rightarrow> io_throw (Error what))"

definition setArticleIndex :: "env \<Rightarrow> string option list \<Rightarrow> unit io" where
  "setArticleIndex E index = storage_set E STORAGE_KEYS_articleIndex (array_value index)"

definition getArticle :: "env \<Rightarrow> string \<Rightarrow> jsval option io" where
  "getArticle E i = storage_get E (STORAGE_KEYS_article i)"

text \<open>
  \<^verbatim>\<open>setArticle\<close> stores what it is given under the key of its \<^verbatim>\<open>id\<close> property;
  a value without one goes under the key \<^verbatim>\<open>article:undefined\<close>, and \<^verbatim>\<open>undefined\<close> is
  appended to the index.
\<close>

definition setArticle :: "env \<Rightarrow> jsval \<Rightarrow> unit io" where
  "setArticle E article =
     io_bind (storage_set E (STORAGE_KEYS_article (js_str (prop_id article))) article) (\<lambda>_.
     io_bind (getArticleIndex E) (\<lambda>index.
     io_bind (elements ''index.includes is not a function'' index) (\<lambda>ids.
       if prop_id article \<notin> set ids then setArticleIndex E (ids @ [prop_id article])
       else io_return ())))"

section \<open>Helpers\<close>

definition nl :: string where
  "nl = [CHR 0x0A]"

fun join :: "string \<Rightarrow> string list \<Rightarrow> string" where
  "join sep [] = []"
| "join sep [x] = x"
| "join sep (x # y # ys) = x @ sep @ join sep (y # ys)"

text \<open>
  The sum of two JavaScript numbers is the exact sum rounded to the nearest double,
  ties to the even significand (IEEE 754 binary64: 53 bits of significand, exponents
  from \<open>-1022\<close> to \<open>1023\<close>, subnormals below). \<open>ilog2 a\<close> is the exponent of a positive
  rational, \<open>ieee_round\<close> the rounding; a sum of magnitude \<open>2^1024 - 2^970\<close> or more
  overflows to an infinity.
\<close>

definition round_half_even :: "rat \<Rightarrow> int" where
  "round_half_even x =
     (let f = \<lfloor>x\<rfloor>; d = x - of_int f
      in if d < 1 / 2 then f else if 1 / 2 < d then f + 1 else if even f then f else f + 1)"

definition ilog2 :: "rat \<Rightarrow> int" where
  "ilog2 a = (if 1 \<le> a then bitlen \<lfloor>a\<rfloor> - 1 else - bitlen (\<lceil>1 / a\<rceil> - 1))"

definition ieee_round :: "rat \<Rightarrow> jsnum" where
  "ieee_round r =
     (if r = 0 then Num 0
      else
        let a = \<bar>r\<bar>;
            e = max (ilog2 a) (- 1022);
            q = 2 powi (e - 52);
            v = of_int (round_half_even (a / q)) * q
        in if 2 ^ 1024 \<le> v then (if 0 < r then PosInf else NegInf)
           else Num (sgn r * v))"

fun js_plus :: "jsnum \<Rightarrow> jsnum \<Rightarrow> jsnum" where
  "js_plus (Num a) (Num b) = ieee_round (a + b)"
| "js_plus NaN _ = NaN"
| "js_plus _ NaN = NaN"
| "js_plus PosInf NegInf = NaN"
| "js_plus NegInf PosInf = NaN"
| "js_plus PosInf _ = PosInf"
| "js_plus _ PosInf = PosInf"
| "js_plus NegInf _ = NegInf"
| "js_plus _ NegInf = NegInf"

text \<open>
  \<^verbatim>\<open>article.version += 1\<close> on an integer version. A stored version is a double, so
  the sum is finite.
\<close>

definition js_incr :: "int \<Rightarrow> int" where
  "js_incr v = (case js_plus (Num (of_int v)) (Num 1) of Num r \<Rightarrow> \<lfloor>r\<rfloor> | _ \<Rightarrow> v)"

text \<open>
  \<^verbatim>\<open>Array.prototype.slice(start, end)\<close>: each bound is made an integer
  (\<^verbatim>\<open>ToIntegerOrInfinity\<close>: \<^verbatim>\<open>NaN\<close> is 0, a fraction is truncated towards 0), a
  negative bound counts from the end of the array, and both bounds are clamped to the
  array. \<open>relative_index n x\<close> is the clamped bound for an array of length \<open>n\<close>.
\<close>

definition js_trunc :: "rat \<Rightarrow> int" where
  "js_trunc r = (if r < 0 then \<lceil>r\<rceil> else \<lfloor>r\<rfloor>)"

definition relative_index :: "int \<Rightarrow> jsnum \<Rightarrow> int" where
  "relative_index n x =
     (case x of
        NaN \<Rightarrow> 0
      | PosInf \<Rightarrow> n
      | NegInf \<Rightarrow> 0
      | Num r \<Rightarrow> (let i = js_trunc r in if i < 0 then max (n + i) 0 else min i n))"

definition js_slice :: "jsnum \<Rightarrow> jsnum \<Rightarrow> 'a list \<Rightarrow> 'a list" where
  "js_slice start stop xs =
     (let n = int (length xs);
          k = relative_index n start;
          final = relative_index n stop
      in take (nat (final - k)) (drop (nat k) xs))"

text \<open>
  \<^verbatim>\<open>[...new Set(xs)]\<close>: a set keeps the first occurrence of each element, in insertion
  order.
\<close>

fun unique :: "string list \<Rightarrow> string list \<Rightarrow> string list" where
  "unique seen [] = []"
| "unique seen (x # xs) = (if x \<in> set seen then unique seen xs else x # unique (x # seen) xs)"

definition generateId :: "env \<Rightarrow> string io" where
  "generateId E = ask (randomBytes E)"

text \<open>
  \<^verbatim>\<open>getOpenAI\<close>: the key of the configuration, else the key of the process
  environment; without one it throws. The client it returns is the \<open>chat_completion\<close>
  of the environment.
\<close>

definition getOpenAI :: "env \<Rightarrow> (string \<Rightarrow> string option) option \<Rightarrow> unit io" where
  "getOpenAI E config =
     (let apiKey = or_opt (case config of None \<Rightarrow> None | Some c \<Rightarrow> c ''OPENAI_API_KEY'') (process_env E)
      in if \<not> truthy apiKey then io_throw (Error ''OPENAI_API_KEY not configured'')
         else io_return ())"

text \<open>
  \<^verbatim>\<open>detectUrlType\<close>: a feed when the parser accepts the URL, a single page on any
  exception. With no URL at all (\<^verbatim>\<open>undefined\<close>) the parser and \<^verbatim>\<open>fetch\<close> throw
  before they reach the network.
\<close>

definition detectUrlType :: "env \<Rightarrow> string option \<Rightarrow> inspirationType io" where
  "detectUrlType E url =
     io_catch
       (case url of
          None \<Rightarrow> io_throw (Error ''Cannot read properties of undefined'')
        | Some u \<Rightarrow> io_bind (ask_result (parseURL E u)) (\<lambda>_. io_return Feed))
       (\<lambda>_. io_return Single)"

definition fetchSingleContent :: "env \<Rightarrow> string option \<Rightarrow> (string \<times> string) io" where
  "fetchSingleContent E url =
     (case url of
        None \<Rightarrow> io_throw (Error ''Failed to parse URL from undefined'')
      | Some u \<Rightarrow> ask_result (fetch_page E u))"

record FeedEntry =
  f_title :: string
  f_content :: string
  f_link :: string

definition feed_entry :: "string \<Rightarrow> rss_item \<Rightarrow> FeedEntry" where
  "feed_entry url item =
     \<lparr>f_title = or_str (r_title item) ''Untitled'',
      f_content = or_str (or_opt (or_opt (r_contentSnippet item) (r_content item)) (r_summary item)) [],
      f_link = or_str (r_link item) url\<rparr>"

definition fetchFeedContent :: "env \<Rightarrow> string option \<Rightarrow> FeedEntry list io" where
  "fetchFeedContent E url =
     (case url of
        None \<Rightarrow> io_throw (Error ''Cannot read properties of undefined'')
      | Some u \<Rightarrow> io_bind (ask_result (parseURL E u)) (\<lambda>items.
          io_return (map (feed_entry u) items)))"

section \<open>Action handlers\<close>

definition template_result :: "(string \<times> json) list \<Rightarrow> ActionResult" where
  "template_result d = \<lparr>responseMode = Template, agentData = Some d, userContent = None\<rparr>"

definition passthrough_result :: "(string \<times> json) list \<Rightarrow> ActionResult" where
  "passthrough_result d = \<lparr>responseMode = Passthrough, agentData = None, userContent = Some d\<rparr>"

subsection \<open>addInspiration\<close>

definition add_result :: "string \<Rightarrow> string \<Rightarrow> int \<Rightarrow> ActionResult" where
  "add_result t ty n =
     template_result [(''template'', JStr t), (''type'', JStr ty), (''contentCount'', JNum n)]"

definition feed_piece :: "string list \<Rightarrow> FeedEntry \<Rightarrow> string \<Rightarrow> string \<Rightarrow> ContentPiece" where
  "feed_piece tags item i now =
     \<lparr>c_id = i, c_title = f_title item, c_source = f_link item, c_content = f_content item,
      c_summary = None, c_tags = tags, c_addedAt = now, c_inspirationType = Feed\<rparr>"

text \<open>The loop over the feed items: a fresh id, the time, and one \<^verbatim>\<open>setContent\<close> each.\<close>

primrec store_items :: "env \<Rightarrow> string list \<Rightarrow> FeedEntry list \<Rightarrow> unit io" where
  "store_items E tags [] = io_return ()"
| "store_items E tags (item # items) =
     io_bind (generateId E) (\<lambda>i.
     io_bind (ask (toISOString E)) (\<lambda>now.
     io_bind (setContent E (feed_piece tags item i now)) (\<lambda>_.
       store_items E tags items)))"

definition addInspiration_body :: "env \<Rightarrow> string option \<Rightarrow> string list \<Rightarrow> ActionResult io" where
  "addInspiration_body E url tags =
     io_bind (detectUrlType E url) (\<lambda>urlType.
       if urlType = Feed then
         io_bind (fetchFeedContent E url) (\<lambda>items.
         io_bind (store_items E tags items) (\<lambda>_.
           io_return (add_result ''success'' ''feed'' (int (length items)))))
       else
         io_bind (fetchSingleContent E url) (\<lambda>(title, content).
         io_bind (generateId E) (\<lambda>i.
         io_bind (ask (toISOString E)) (\<lambda>now.
         io_bind (setContent E
             \<lparr>c_id = i, c_title = title, c_source = js_str url, c_content = content,
              c_summary = None, c_tags = tags, c_addedAt = now, c_inspirationType = Single\<rparr>) (\<lambda>_.
           io_return (add_result ''success'' ''single'' 1))))))"

definition addInspiration :: "env \<Rightarrow> ActionInput \<Rightarrow> ActionResult io" where
  "addInspiration E input =
     (let url = in_url input;
          tags = (case in_tags input of None \<Rightarrow> [] | Some t \<Rightarrow> t)
      in io_catch (addInspiration_body E url tags)
           (\<lambda>error. io_return (add_result ''error'' ''single'' 0)))"

subsection \<open>listContent and listArticles\<close>

text \<open>
  \<^verbatim>\<open>(n as number) || d\<close>: an absent number, the number zero and \<^verbatim>\<open>NaN\<close> give the
  default.
\<close>

definition or_num :: "jsnum option \<Rightarrow> jsnum \<Rightarrow> jsnum" where
  "or_num n d = (case n of None \<Rightarrow> d | Some m \<Rightarrow> if m = Num 0 \<or> m = NaN then d else m)"

text \<open>The loop that resolves ids and keeps what a lookup finds.\<close>

primrec load_all :: "(string \<Rightarrow> jsval option io) \<Rightarrow> string list \<Rightarrow> jsval list io" where
  "load_all get [] = io_return []"
| "load_all get (i # ids) =
     io_bind (get i) (\<lambda>found.
     io_bind (load_all get ids) (\<lambda>rest.
       io_return (case found of None \<Rightarrow> rest | Some v \<Rightarrow> v # rest)))"

text \<open>
  In \<^verbatim>\<open>listContent\<close> the loaded values are used as content pieces. A value of another
  kind has no tags and no \<^verbatim>\<open>addedAt\<close>: with a tag filter the source throws a
  \<^verbatim>\<open>TypeError\<close> on it, without one its comparator returns \<^verbatim>\<open>NaN\<close> and the order of
  the result is left to the engine. The model throws in both cases; no handler writes
  such a value under the key of a listed content id, and the theorems about
  \<^verbatim>\<open>listContent\<close> are about stores whose listed records are content pieces.
\<close>

fun pieces_of :: "jsval list \<Rightarrow> ContentPiece list option" where
  "pieces_of [] = Some []"
| "pieces_of (VPiece p # vs) = (case pieces_of vs of None \<Rightarrow> None | Some ps \<Rightarrow> Some (p # ps))"
| "pieces_of (_ # vs) = None"

definition content_summary :: "ContentPiece \<Rightarrow> json" where
  "content_summary c =
     JObj [(''id'', JStr (c_id c)), (''title'', JStr (c_title c)), (''source'', JStr (c_source c)),
           (''tags'', JList (map JStr (c_tags c))), (''addedAt'', JStr (c_addedAt c))]"

definition article_summary :: "jsval \<Rightarrow> json" where
  "article_summary a =
     JObj [(''id'', json_str (prop_id a)), (''title'', json_str (prop_title a)),
           (''version'', prop_version a), (''createdAt'', json_str (prop_createdAt a)),
           (''updatedAt'', json_str (prop_updatedAt a))]"

definition list_empty :: ActionResult where
  "list_empty =
     template_result [(''template'', JStr ''empty''), (''totalCount'', JNum 0), (''returnedCount'', JNum 0)]"

definition list_success :: "nat \<Rightarrow> json list \<Rightarrow> ActionResult" where
  "list_success totalCount page =
     template_result [(''template'', JStr ''success''), (''totalCount'', JNum (int totalCount)),
                      (''returnedCount'', JNum (int (length page))), (''items'', JList page)]"

text \<open>
  The tag filter, the sort and the page of \<^verbatim>\<open>listContent\<close>. \<^verbatim>\<open>Array.prototype.sort\<close> is
  stable, and its comparator \<^verbatim>\<open>time(b) - time(a)\<close> orders by time, latest first:
  that is the stable sort by the negated time.
\<close>

definition filter_tags :: "string list \<Rightarrow> ContentPiece list \<Rightarrow> ContentPiece list" where
  "filter_tags filterTags allContent =
     (if length filterTags > 0
      then filter (\<lambda>item. list_ex (\<lambda>tag. tag \<in> set (c_tags item)) filterTags) allContent
      else allContent)"

definition sort_newest :: "env \<Rightarrow> ContentPiece list \<Rightarrow> ContentPiece list" where
  "sort_newest E cs = sort_key (\<lambda>c. - getTime E (c_addedAt c)) cs"

definition listContent :: "env \<Rightarrow> ActionInput \<Rightarrow> ActionResult io" where
  "listContent E input =
     (let filterTags = (case in_tags input of None \<Rightarrow> [] | Some t \<Rightarrow> t);
          limit = or_num (in_limit input) (Num 20);
          offset = or_num (in_offset input) (Num 0)
      in io_bind (getContentIndex E) (\<lambda>index.
         io_bind (array_of ''index is not iterable'' index) (\<lambda>ids.
           if length ids = 0 then io_return list_empty
           else
             io_bind (load_all (getContent E) ids) (\<lambda>loaded.
               case pieces_of loaded of
                 None \<Rightarrow> io_throw (Error ''Cannot read properties of undefined'')
               | Some allContent \<Rightarrow>
                   (let filtered = sort_newest E (filter_tags filterTags allContent);
                        totalCount = length filtered;
                        paginated = js_slice offset (js_plus offset limit) filtered
                    in io_return (list_success totalCount (map content_summary paginated)))))))"

text \<open>
  \<^verbatim>\<open>listArticles\<close> uses what the listed keys hold as articles. The ids of the index are
  printed into the keys, so \<^verbatim>\<open>undefined\<close> reads the key \<^verbatim>\<open>article:undefined\<close>. The
  comparator needs the \<^verbatim>\<open>updatedAt\<close> of each value; articles and edited values have
  one. For a value without one the comparator returns \<^verbatim>\<open>NaN\<close> and the order is left
  to the engine: the model throws, and no handler writes such a value under the key of
  a listed article id.
\<close>

definition updated_time :: "env \<Rightarrow> jsval \<Rightarrow> int" where
  "updated_time E a = (case prop_updatedAt a of None \<Rightarrow> 0 | Some t \<Rightarrow> getTime E t)"

definition sort_updated :: "env \<Rightarrow> jsval list \<Rightarrow> jsval list" where
  "sort_updated E as = sort_key (\<lambda>a. - updated_time E a) as"

definition listArticles :: "env \<Rightarrow> ActionInput \<Rightarrow> ActionResult io" where
  "listArticles E input =
     (let limit = or_num (in_limit input) (Num 20);
          offset = or_num (in_offset input) (Num 0)
      in io_bind (getArticleIndex E) (\<lambda>index.
         io_bind (elements ''index is not iterable'' index) (\<lambda>ids.
           if length ids = 0 then io_return list_empty
           else
             io_bind (load_all (getArticle E) (map js_str ids)) (\<lambda>allArticles.
               if list_ex (\<lambda>a. prop_updatedAt a = None) allArticles
               then io_throw (Error ''Invalid time value'')
               else
                 (let ordered = sort_updated E allArticles;
                      totalCount = length ordered;
                      paginated = js_slice offset (js_plus offset limit) ordered
                  in io_return (list_success totalCount (map article_summary paginated)))))))"

subsection \<open>getContent\<close>

definition passthrough_error :: "string \<Rightarrow> ActionResult" where
  "passthrough_error msg =
     passthrough_result [(''contentType'', JStr ''error''), (''content'', JStr msg)]"

text \<open>
  A missing \<^verbatim>\<open>contentId\<close> prints as \<^verbatim>\<open>undefined\<close> in the key. What the key holds is
  used as a content piece; the \<^verbatim>\<open>tags.join\<close> of a value without tags (the index under
  the id \<^verbatim>\<open>index\<close>) throws.
\<close>

definition getContentAction :: "env \<Rightarrow> ActionInput \<Rightarrow> ActionResult io" where
  "getContentAction E input =
     (let contentId = js_str (in_contentId input)
      in io_bind (getContent E contentId) (\<lambda>content.
           case content of
             None \<Rightarrow> io_return (passthrough_error ''Content not found'')
           | Some (VPiece c) \<Rightarrow>
               io_return (passthrough_result
                 [(''contentType'', JStr ''content''),
                  (''content'', JStr (''# '' @ c_title c @ nl @ nl @ ''**Source:** '' @ c_source c @ nl
                      @ ''**Tags:** '' @ (let j = join '', '' (c_tags c) in if j = [] then ''none'' else j) @ nl
                      @ ''**Added:** '' @ c_addedAt c @ nl @ nl @ ''---'' @ nl @ nl @ c_content c)),
                  (''metadata'', JObj [(''title'', JStr (c_title c)), (''source'', JStr (c_source c)),
                      (''tags'', JList (map JStr (c_tags c))), (''addedAt'', JStr (c_addedAt c))])])
           | Some _ \<Rightarrow> io_throw (Error ''Cannot read properties of undefined (reading 'join')'')))"

subsection \<open>createArticle\<close>

text \<open>
  The block a resolved value contributes to the prompt. The value is used as a content
  piece; a field it does not have prints as \<^verbatim>\<open>undefined\<close>.
\<close>

definition source_block :: "jsval \<Rightarrow> string" where
  "source_block v =
     ''## '' @ js_str (prop_title v) @ nl @ ''Source: '' @ js_str (prop_source v) @ nl @ nl
     @ js_str (prop_content v)"

definition rule_sep :: string where
  "rule_sep = nl @ nl @ ''---'' @ nl @ nl"

definition writer_persona :: string where
  "writer_persona = ''You are a skilled writer who creates engaging articles based on source materials. Maintain the user''
     @ [CHR 0x27] @ ''s voice and style as specified in their instructions.''"

definition editor_persona :: string where
  "editor_persona = ''You are a skilled editor who revises articles based on feedback while maintaining consistency with the original voice and style.''"

definition create_prompt :: "string option \<Rightarrow> string list \<Rightarrow> string option \<Rightarrow> string" where
  "create_prompt instructions sourceContent title =
     ''Based on the following source materials, create an article following these instructions:'' @ nl @ nl
     @ ''INSTRUCTIONS: '' @ js_str instructions @ nl @ nl
     @ ''SOURCE MATERIALS:'' @ nl @ join rule_sep sourceContent @ nl @ nl
     @ ''Write a well-structured article that synthesizes the key points from these sources while following the user''
     @ [CHR 0x27] @ ''s instructions for tone and style. ''
     @ (if truthy title then ''The article should be titled: '' @ [CHR 0x22] @ js_str title @ [CHR 0x22]
        else ''Generate an appropriate title.'')"

text \<open>
  The model is \<^verbatim>\<open>gpt-4o\<close> with at most 4000 tokens, in both calls. An absent
  \<^verbatim>\<open>contentIds\<close> is not iterable: the loop over it throws.
\<close>

definition createArticle :: "env \<Rightarrow> ActionInput \<Rightarrow> (string \<Rightarrow> string option) option \<Rightarrow> ActionResult io" where
  "createArticle E input config =
     (let instructions = in_instructions input;
          title = in_title input
      in io_bind (case in_contentIds input of
                    None \<Rightarrow> io_throw (Error ''contentIds is not iterable'')
                  | Some ids \<Rightarrow> io_return ids) (\<lambda>contentIds.
         io_bind (load_all (getContent E) contentIds) (\<lambda>loaded.
           let sourceContent = map source_block loaded
           in if length sourceContent = 0
              then io_return (passthrough_error ''No valid content pieces found'')
              else
                io_bind (getOpenAI E config) (\<lambda>_.
                io_bind (ask_result (chat_completion E writer_persona
                           (create_prompt instructions sourceContent title))) (\<lambda>message.
                  let generatedContent = or_str message [];
                      articleTitle = or_str (or_opt title (match_h1 E generatedContent)) ''Untitled Article''
                  in io_bind (generateId E) (\<lambda>articleId.
                     io_bind (ask (toISOString E)) (\<lambda>createdAt.
                     io_bind (ask (toISOString E)) (\<lambda>updatedAt.
                     io_bind (setArticle E (VArticle
                         \<lparr>a_id = articleId, a_title = articleTitle, a_content = generatedContent,
                          a_sourceContentIds = contentIds, a_instructions = instructions,
                          a_version = 1, a_createdAt = createdAt, a_updatedAt = updatedAt\<rparr>)) (\<lambda>_.
                       io_return (passthrough_result
                         [(''contentType'', JStr ''article''),
                          (''content'', JStr (''# '' @ articleTitle @ nl @ nl @ generatedContent)),
                          (''metadata'', JObj [(''articleId'', JStr articleId),
                                               (''title'', JStr articleTitle)])]))))))))))"

subsection \<open>updateArticle\<close>

definition update_prompt :: "jsval \<Rightarrow> string option \<Rightarrow> string list \<Rightarrow> string" where
  "update_prompt article instructions additionalContent =
     ''Here is an existing article that needs to be revised:'' @ nl @ nl
     @ ''CURRENT ARTICLE:'' @ nl @ js_str (prop_content article) @ nl @ nl
     @ ''REVISION INSTRUCTIONS: '' @ js_str instructions
     @ (if length additionalContent > 0
        then nl @ nl @ ''ADDITIONAL SOURCE MATERIALS TO INCORPORATE:'' @ nl @ join rule_sep additionalContent
        else [])"

text \<open>The article as \<^verbatim>\<open>updateArticle\<close> rewrites it before it stores it again.\<close>

definition revise :: "Article \<Rightarrow> string option \<Rightarrow> string \<Rightarrow> string list \<Rightarrow> Article" where
  "revise article message now additionalContentIds =
     article\<lparr>a_content := or_str message (a_content article),
             a_version := js_incr (a_version article),
             a_updatedAt := now,
             a_sourceContentIds :=
               (if length additionalContentIds > 0
                then unique [] (a_sourceContentIds article @ additionalContentIds)
                else a_sourceContentIds article)\<rparr>"

text \<open>
  What the key of the article holds is used as an article, whatever it is. On a value
  that is no article (the key \<^verbatim>\<open>article:index\<close> holds the index) the three
  assignments set \<^verbatim>\<open>content\<close> (the answer of the model, else the \<^verbatim>\<open>content\<close> the value
  had), \<^verbatim>\<open>version\<close> (\<^verbatim>\<open>NaN\<close>) and \<^verbatim>\<open>updatedAt\<close> on it; with additional ids the
  spread of its missing \<^verbatim>\<open>sourceContentIds\<close> throws a \<^verbatim>\<open>TypeError\<close>.
\<close>

definition revise_value :: "jsval \<Rightarrow> string option \<Rightarrow> string \<Rightarrow> string list \<Rightarrow> jsval io" where
  "revise_value article message now additionalContentIds =
     (case article of
        VArticle a \<Rightarrow> io_return (VArticle (revise a message now additionalContentIds))
      | _ \<Rightarrow>
          if length additionalContentIds > 0
          then io_throw (Error ''article.sourceContentIds is not iterable'')
          else io_return
            (VEdited (case article of VEdited v content updatedAt \<Rightarrow> v | _ \<Rightarrow> article)
               (or_opt message (prop_content article)) now))"

definition updateArticle :: "env \<Rightarrow> ActionInput \<Rightarrow> (string \<Rightarrow> string option) option \<Rightarrow> ActionResult io" where
  "updateArticle E input config =
     (let articleId = js_str (in_articleId input);
          instructions = in_instructions input;
          additionalContentIds = (case in_additionalContentIds input of None \<Rightarrow> [] | Some ids \<Rightarrow> ids)
      in io_bind (getArticle E articleId) (\<lambda>found.
           case found of
             None \<Rightarrow> io_return (passthrough_error ''Article not found'')
           | Some article \<Rightarrow>
               io_bind (load_all (getContent E) additionalContentIds) (\<lambda>loaded.
                 let additionalContent = map source_block loaded
                 in io_bind (getOpenAI E config) (\<lambda>_.
                    io_bind (ask_result (chat_completion E editor_persona
                               (update_prompt article instructions additionalContent))) (\<lambda>message.
                    io_bind (ask (toISOString E)) (\<lambda>now.
                    io_bind (revise_value article message now additionalContentIds) (\<lambda>revised.
                    io_bind (setArticle E revised) (\<lambda>_.
                      io_return (passthrough_result
                        [(''contentType'', JStr ''article''),
                         (''content'', JStr (''# '' @ js_str (prop_title revised) @ nl @ nl
                                             @ js_str (prop_content revised))),
                         (''metadata'', JObj [(''articleId'', json_str (prop_id revised)),
                                              (''title'', json_str (prop_title revised)),
                                              (''version'', prop_version revised)])])))))))))"

subsection \<open>deleteContent\<close>

definition deleteContent :: "env \<Rightarrow> ActionInput \<Rightarrow> ActionResult io" where
  "deleteContent E input =
     (let contentId = js_str (in_contentId input)
      in io_bind (deleteContentById E contentId) (\<lambda>deleted.
           if \<not> deleted then io_return (template_result [(''template'', JStr ''notFound'')])
           else io_return (template_result [(''template'', JStr ''success'')])))"

section \<open>The dispatcher\<close>

datatype StorageProxy = StorageProxy

record InvokeInput =
  inv_action :: string
  inv_input :: ActionInput
  inv_storage :: "StorageProxy option"
  inv_config :: "(string \<Rightarrow> string option) option"

definition invoke_error :: "string \<Rightarrow> ActionResult" where
  "invoke_error msg = template_result [(''template'', JStr ''error''), (''message'', JStr msg)]"

definition known_actions :: "string list" where
  "known_actions = [''addInspiration'', ''listContent'', ''getContent'', ''createArticle'',
                    ''listArticles'', ''updateArticle'', ''deleteContent'']"

text \<open>The \<^verbatim>\<open>switch\<close> of \<^verbatim>\<open>invoke\<close>.\<close>

definition dispatch :: "env \<Rightarrow> string \<Rightarrow> ActionInput \<Rightarrow> (string \<Rightarrow> string option) option \<Rightarrow> ActionResult io" where
  "dispatch E action actionInput config =
     (if action = ''addInspiration'' then addInspiration E actionInput
      else if action = ''listContent'' then listContent E actionInput
      else if action = ''getContent'' then getContentAction E actionInput
      else if action = ''createArticle'' then createArticle E actionInput config
      else if action = ''listArticles'' then listArticles E actionInput
      else if action = ''updateArticle'' then updateArticle E actionInput config
      else if action = ''deleteContent'' then deleteContent E actionInput
      else io_return (invoke_error (''Unknown action: '' @ action)))"

definition error_message :: "exn \<Rightarrow> string" where
  "error_message error = (case error of Error message \<Rightarrow> message | Thrown \<Rightarrow> ''Unknown error'')"

definition invoke :: "env \<Rightarrow> InvokeInput \<Rightarrow> ActionResult io" where
  "invoke E input =
     (case inv_storage input of
        None \<Rightarrow> io_return (invoke_error ''Storage not provided'')
      | Some storage \<Rightarrow>
          io_catch (dispatch E (inv_action input) (inv_input input) (inv_config input))
            (\<lambda>error. io_return (invoke_error (error_message error))))"

section \<open>Predicates of the specification\<close>

text \<open>
  A storage that answers every call, as \<^verbatim>\<open>MockStorage\<close> does. The record a key of a
  collection holds, when it is a record of that collection; the ids an index key holds
  (none stored yet reads as the empty index). An index is consistent when it lists
  exactly the ids whose record a direct lookup finds.
\<close>

definition reliable :: "env \<Rightarrow> bool" where
  "reliable E \<longleftrightarrow> (\<forall>t. storage_fault E t = None)"

definition stored_piece :: "(string \<Rightarrow> jsval option) \<Rightarrow> string \<Rightarrow> ContentPiece option" where
  "stored_piece d i = (case d (STORAGE_KEYS_content i) of Some (VPiece p) \<Rightarrow> Some p | _ \<Rightarrow> None)"

definition stored_article :: "(string \<Rightarrow> jsval option) \<Rightarrow> string \<Rightarrow> Article option" where
  "stored_article d i = (case d (STORAGE_KEYS_article i) of Some (VArticle a) \<Rightarrow> Some a | _ \<Rightarrow> None)"

definition index_ids :: "string \<Rightarrow> (string \<Rightarrow> jsval option) \<Rightarrow> string list option" where
  "index_ids k d = (case d k of None \<Rightarrow> Some [] | Some (VIds ids) \<Rightarrow> Some ids | Some _ \<Rightarrow> None)"

definition index_elements :: "string \<Rightarrow> (string \<Rightarrow> jsval option) \<Rightarrow> string option list option" where
  "index_elements k d = (case d k of None \<Rightarrow> Some [] | Some v \<Rightarrow> elements_of v)"

definition index_gains :: "string option \<Rightarrow> (string \<Rightarrow> jsval option) \<Rightarrow> (string \<Rightarrow> jsval option) \<Rightarrow> bool" where
  "index_gains i d d' \<longleftrightarrow>
     (\<exists>es. index_elements STORAGE_KEYS_articleIndex d = Some es \<and>
           index_elements STORAGE_KEYS_articleIndex d' = Some (if i \<in> set es then es else es @ [i]))"

definition content_consistent :: "(string \<Rightarrow> jsval option) \<Rightarrow> bool" where
  "content_consistent d \<longleftrightarrow>
     (\<exists>ids. index_ids STORAGE_KEYS_contentIndex d = Some ids \<and> set ids = {i. stored_piece d i \<noteq> None})"

definition article_consistent :: "(string \<Rightarrow> jsval option) \<Rightarrow> bool" where
  "article_consistent d \<longleftrightarrow>
     (\<exists>ids. index_ids STORAGE_KEYS_articleIndex d = Some ids \<and> set ids = {i. stored_article d i \<noteq> None})"

text \<open>
  An environment for the examples: the storage answers every call, ids and timestamps
  follow the tick, no URL is a feed, every page is the same page, no credential is
  configured and the model answers one sentence.
\<close>

definition mock_getTime :: "string \<Rightarrow> int" where
  "mock_getTime s =
     (if s = ''2025-01-01T00:00:01.000Z'' then 1735689601000
      else if s = ''2025-01-01T00:00:02.000Z'' then 1735689602000
      else if s = ''2025-01-01T00:00:03.000Z'' then 1735689603000
      else 1735689600000)"

definition mock_env :: env where
  "mock_env =
     \<lparr>storage_fault = (\<lambda>_. None),
      randomBytes = (\<lambda>t. ''00000000000000'' @ [''0123456789abcdef'' ! (t div 16 mod 16), ''0123456789abcdef'' ! (t mod 16)]),
      toISOString = (\<lambda>t. ''2025-01-01T00:00:0'' @ [''0123456789'' ! (t mod 10)] @ ''.000Z''),
      getTime = mock_getTime,
      parseURL = (\<lambda>_ _. Inl (Error ''Status code 404'')),
      fetch_page = (\<lambda>_ _. Inr (''Example Domain'', ''This domain is for use in examples.'')),
      process_env = None,
      chat_completion = (\<lambda>_ _ _. Inr (Some ''A short summary.'')),
      match_h1 = (\<lambda>_. None)\<rparr>"

definition piece1 :: ContentPiece where
  "piece1 = \<lparr>c_id = ''00000000000000a1'', c_title = ''First'', c_source = ''https://example.com/1'',
             c_content = ''one'', c_summary = None, c_tags = [''test''],
             c_addedAt = ''2025-01-01T00:00:01.000Z'', c_inspirationType = Single\<rparr>"

definition piece2 :: ContentPiece where
  "piece2 = \<lparr>c_id = ''00000000000000a2'', c_title = ''Second'', c_source = ''https://example.com/2'',
             c_content = ''two'', c_summary = None, c_tags = [''httpbin'', ''test''],
             c_addedAt = ''2025-01-01T00:00:02.000Z'', c_inspirationType = Single\<rparr>"

definition piece3 :: ContentPiece where
  "piece3 = \<lparr>c_id = ''00000000000000a3'', c_title = ''Third'', c_source = ''https://example.com/feed'',
             c_content = ''three'', c_summary = None, c_tags = [''other''],
             c_addedAt = ''2025-01-01T00:00:03.000Z'', c_inspirationType = Feed\<rparr>"

definition world1 :: world where
  "world1 = \<lparr>data = [STORAGE_KEYS_content ''00000000000000a1'' \<mapsto> VPiece piece1,
                      STORAGE_KEYS_contentIndex \<mapsto> VIds [''00000000000000a1'']],
             tick = 0\<rparr>"

definition world3 :: world where
  "world3 = \<lparr>data = [STORAGE_KEYS_content ''00000000000000a1'' \<mapsto> VPiece piece1,
                      STORAGE_KEYS_content ''00000000000000a2'' \<mapsto> VPiece piece2,
                      STORAGE_KEYS_content ''00000000000000a3'' \<mapsto> VPiece piece3,
                      STORAGE_KEYS_contentIndex \<mapsto>
                        VIds [''00000000000000a1'', ''00000000000000a2'', ''00000000000000a3'']],
             tick = 0\<rparr>"

definition no_input :: ActionInput where
  "no_input = \<lparr>in_url = None, in_tags = None, in_limit = None, in_offset = None,
                in_contentId = None, in_contentIds = None, in_instructions = None,
                in_title = None, in_articleId = None, in_additionalContentIds = None\<rparr>"

definition template_of :: "ActionResult \<Rightarrow> json option" where
  "template_of r = (case agentData r of None \<Rightarrow> None | Some d \<Rightarrow> map_of d ''template'')"

definition listed_pieces :: "(string \<Rightarrow> jsval option) \<Rightarrow> string list \<Rightarrow> ContentPiece list" where
  "listed_pieces d ids = List.map_filter (stored_piece d) ids"

definition listed_articles :: "(string \<Rightarrow> jsval option) \<Rightarrow> string list \<Rightarrow> Article list" where
  "listed_articles d ids = List.map_filter (stored_article d) ids"

definition pieces_only :: "(string \<Rightarrow> jsval option) \<Rightarrow> string list \<Rightarrow> bool" where
  "pieces_only d ids =
     list_all (\<lambda>i. case d (STORAGE_KEYS_content i) of None \<Rightarrow> True | Some (VPiece _) \<Rightarrow> True | Some _ \<Rightarrow> False) ids"

definition articles_only :: "(string \<Rightarrow> jsval option) \<Rightarrow> string list \<Rightarrow> bool" where
  "articles_only d ids =
     list_all (\<lambda>i. case d (STORAGE_KEYS_article i) of None \<Rightarrow> True | Some (VArticle _) \<Rightarrow> True | Some _ \<Rightarrow> False) ids"

definition agent_field :: "string \<Rightarrow> ActionResult \<Rightarrow> json option" where
  "agent_field name r = (case agentData r of None \<Rightarrow> None | Some d \<Rightarrow> map_of d name)"

definition article1 :: Article where
  "article1 = \<lparr>a_id = ''00000000000000b1'', a_title = ''Test Article'', a_content = ''Draft text.'',
               a_sourceContentIds = [''00000000000000a1''], a_instructions = Some ''casual'',
               a_version = 1, a_createdAt = ''2025-01-01T00:00:02.000Z'',
               a_updatedAt = ''2025-01-01T00:00:02.000Z''\<rparr>"

definition world2 :: world where
  "world2 = \<lparr>data = [STORAGE_KEYS_content ''00000000000000a1'' \<mapsto> VPiece piece1,
                      STORAGE_KEYS_contentIndex \<mapsto> VIds [''00000000000000a1''],
                      STORAGE_KEYS_article ''00000000000000b1'' \<mapsto> VArticle article1,
                      STORAGE_KEYS_articleIndex \<mapsto> VIds [''00000000000000b1'']],
             tick = 0\<rparr>"

definition with_id :: "string \<Rightarrow> string list \<Rightarrow> string list" where
  "with_id i ids = (if i \<in> set ids then ids else ids @ [i])"

definition additional_ids :: "ActionInput \<Rightarrow> string list" where
  "additional_ids input = (case in_additionalContentIds input of None \<Rightarrow> [] | Some ids \<Rightarrow> ids)"

definition user_field :: "string \<Rightarrow> ActionResult \<Rightarrow> json option" where
  "user_field name r = (case userContent r of None \<Rightarrow> None | Some d \<Rightarrow> map_of d name)"

definition mock_config :: "(string \<Rightarrow> string option) option" where
  "mock_config = Some (\<lambda>key. if key = ''OPENAI_API_KEY'' then Some ''sk-test'' else None)"

definition credential :: "env \<Rightarrow> (string \<Rightarrow> string option) option \<Rightarrow> bool" where
  "credential E config =
     truthy (or_opt (case config of None \<Rightarrow> None | Some c \<Rightarrow> c ''OPENAI_API_KEY'') (process_env E))"

definition silent_env :: env where
  "silent_env = mock_env\<lparr>chat_completion := (\<lambda>_ _ _. Inr None)\<rparr>"

definition created_article :: "env \<Rightarrow> ActionInput \<Rightarrow> string list \<Rightarrow> string option \<Rightarrow> nat \<Rightarrow> Article" where
  "created_article E input contentIds message t =
     \<lparr>a_id = randomBytes E t,
      a_title = or_str (or_opt (in_title input) (match_h1 E (or_str message []))) ''Untitled Article'',
      a_content = or_str message [],
      a_sourceContentIds = contentIds,
      a_instructions = in_instructions input,
      a_version = 1,
      a_createdAt = toISOString E (Suc t),
      a_updatedAt = toISOString E (Suc (Suc t))\<rparr>"

definition resolved :: "(string \<Rightarrow> jsval option) \<Rightarrow> string list \<Rightarrow> jsval list" where
  "resolved d ids = List.map_filter (\<lambda>i. d (STORAGE_KEYS_content i)) ids"















section \<open>Basic facts about the effects\<close>

lemma io_bind_Inr:
  "io_bind m f w = (Inr y, w') \<Longrightarrow> \<exists>x w1. m w = (Inr x, w1) \<and> f x w1 = (Inr y, w')"
  by (auto simp: io_bind_def split: prod.splits sum.splits)

lemma io_bind_Inl:
  "io_bind m f w = (Inl e, w') \<Longrightarrow> m w = (Inl e, w') \<or> (\<exists>x w1. m w = (Inr x, w1) \<and> f x w1 = (Inl e, w'))"
  by (auto simp: io_bind_def split: prod.splits sum.splits)

lemma io_bind_ok: "m w = (Inr x, w1) \<Longrightarrow> io_bind m f w = f x w1"
  by (simp add: io_bind_def)

lemma io_bind_fail: "m w = (Inl e, w1) \<Longrightarrow> io_bind m f w = (Inl e, w1)"
  by (simp add: io_bind_def)

lemma data_next_tick: "data (next_tick w) = data w"
  by (simp add: next_tick_def)


lemma storage_get_Inr:
  "storage_get E k w = (Inr v, w') \<Longrightarrow> v = data w k \<and> w' = next_tick w"
  by (auto simp: storage_get_def split: option.splits)

lemma storage_set_Inr:
  "storage_set E k v w = (Inr u, w') \<Longrightarrow> w' = next_tick (w\<lparr>data := (data w)(k \<mapsto> v)\<rparr>)"
  by (auto simp: storage_set_def split: option.splits)

lemma storage_delete_Inr:
  "storage_delete E k w = (Inr b, w') \<Longrightarrow>
     b = (data w k \<noteq> None) \<and> w' = next_tick (w\<lparr>data := (data w)(k := None)\<rparr>)"
  by (auto simp: storage_delete_def split: option.splits)

lemma storage_get_reliable:
  "reliable E \<Longrightarrow> storage_get E k w = (Inr (data w k), next_tick w)"
  by (simp add: storage_get_def reliable_def)

lemma storage_set_reliable:
  "reliable E \<Longrightarrow> storage_set E k v w = (Inr (), next_tick (w\<lparr>data := (data w)(k \<mapsto> v)\<rparr>))"
  by (simp add: storage_set_def reliable_def)

lemma storage_delete_reliable:
  "reliable E \<Longrightarrow> storage_delete E k w =
     (Inr (data w k \<noteq> None), next_tick (w\<lparr>data := (data w)(k := None)\<rparr>))"
  by (simp add: storage_delete_def reliable_def)

lemma content_key_inj: "(STORAGE_KEYS_content i = STORAGE_KEYS_content j) = (i = j)"
  by (simp add: STORAGE_KEYS_content_def)

lemma article_key_inj: "(STORAGE_KEYS_article i = STORAGE_KEYS_article j) = (i = j)"
  by (simp add: STORAGE_KEYS_article_def)

lemma content_key_index:
  "(STORAGE_KEYS_content i = STORAGE_KEYS_contentIndex) = (i = ''index'')"
  "(STORAGE_KEYS_contentIndex = STORAGE_KEYS_content i) = (i = ''index'')"
  by (auto simp: STORAGE_KEYS_content_def STORAGE_KEYS_contentIndex_def)

lemma article_key_index:
  "(STORAGE_KEYS_article i = STORAGE_KEYS_articleIndex) = (i = ''index'')"
  "(STORAGE_KEYS_articleIndex = STORAGE_KEYS_article i) = (i = ''index'')"
  by (auto simp: STORAGE_KEYS_article_def STORAGE_KEYS_articleIndex_def)

lemma content_article_keys:
  "STORAGE_KEYS_content i \<noteq> STORAGE_KEYS_article j"
  "STORAGE_KEYS_article j \<noteq> STORAGE_KEYS_content i"
  "STORAGE_KEYS_content i \<noteq> STORAGE_KEYS_articleIndex"
  "STORAGE_KEYS_articleIndex \<noteq> STORAGE_KEYS_content i"
  "STORAGE_KEYS_article j \<noteq> STORAGE_KEYS_contentIndex"
  "STORAGE_KEYS_contentIndex \<noteq> STORAGE_KEYS_article j"
  "STORAGE_KEYS_contentIndex \<noteq> STORAGE_KEYS_articleIndex"
  "STORAGE_KEYS_articleIndex \<noteq> STORAGE_KEYS_contentIndex"
  by (simp_all add: STORAGE_KEYS_content_def STORAGE_KEYS_article_def
      STORAGE_KEYS_contentIndex_def STORAGE_KEYS_articleIndex_def)

lemmas key_simps = content_key_inj article_key_inj content_key_index article_key_index
  content_article_keys

lemma getContentIndex_Inr:
  "getContentIndex E w = (Inr v, w') \<Longrightarrow>
     v = (case data w STORAGE_KEYS_contentIndex of None \<Rightarrow> VIds [] | Some x \<Rightarrow> x) \<and> w' = next_tick w"
  by (auto simp: getContentIndex_def io_return_def dest!: io_bind_Inr storage_get_Inr)

lemma getArticleIndex_Inr:
  "getArticleIndex E w = (Inr v, w') \<Longrightarrow>
     v = (case data w STORAGE_KEYS_articleIndex of None \<Rightarrow> VIds [] | Some x \<Rightarrow> x) \<and> w' = next_tick w"
  by (auto simp: getArticleIndex_def io_return_def dest!: io_bind_Inr storage_get_Inr)

lemma array_of_Inr: "array_of what v w = (Inr ids, w') \<Longrightarrow> v = VIds ids \<and> w' = w"
  by (auto simp: array_of_def io_return_def io_throw_def split: jsval.splits)

lemma index_read:
  "(case d k of None \<Rightarrow> VIds [] | Some x \<Rightarrow> x) = VIds ids \<longleftrightarrow> index_ids k d = Some ids"
  by (auto simp: index_ids_def split: option.splits jsval.splits)

text \<open>A completed setContent: what the store holds afterwards.\<close>

lemma setContent_Inr:
  assumes "setContent E c w = (Inr u, w')"
  shows "\<exists>ids. index_ids STORAGE_KEYS_contentIndex (data w) = Some ids \<and> c_id c \<noteq> ''index'' \<and>
           data w' = (data w)(STORAGE_KEYS_content (c_id c) \<mapsto> VPiece c,
                              STORAGE_KEYS_contentIndex \<mapsto> VIds (if c_id c \<in> set ids then ids else ids @ [c_id c]))"
proof -
  from assms obtain w1 v w2 ids w3 where
    s1: "storage_set E (STORAGE_KEYS_content (c_id c)) (VPiece c) w = (Inr (), w1)" and
    s2: "getContentIndex E w1 = (Inr v, w2)" and
    s3: "array_of ''index.includes is not a function'' v w2 = (Inr ids, w3)" and
    s4: "(if c_id c \<notin> set ids then setContentIndex E (ids @ [c_id c]) else io_return ()) w3 = (Inr u, w')"
    unfolding setContent_def by (fastforce dest!: io_bind_Inr)
  from s1 have w1: "w1 = next_tick (w\<lparr>data := (data w)(STORAGE_KEYS_content (c_id c) \<mapsto> VPiece c)\<rparr>)"
    by (rule storage_set_Inr)
  from s2 have v: "v = (case data w1 STORAGE_KEYS_contentIndex of None \<Rightarrow> VIds [] | Some x \<Rightarrow> x)"
    and w2: "w2 = next_tick w1"
    by (auto dest: getContentIndex_Inr)
  from s3 have vi: "v = VIds ids" and w3: "w3 = w2"
    by (auto dest: array_of_Inr)
  have ne: "c_id c \<noteq> ''index''"
    using v vi w1 by (auto simp: data_next_tick key_simps)
  with v vi w1 have idx: "index_ids STORAGE_KEYS_contentIndex (data w) = Some ids"
    by (auto simp: data_next_tick key_simps index_ids_def split: option.splits jsval.splits)
  show ?thesis
  proof (cases "c_id c \<in> set ids")
    case True
    with s4 have "w' = w3" by (simp add: io_return_def)
    moreover from True idx have "data w STORAGE_KEYS_contentIndex = Some (VIds ids)"
      by (auto simp: index_ids_def split: option.splits jsval.splits)
    ultimately show ?thesis
      using True idx ne w1 w2 w3 by (auto simp: data_next_tick key_simps fun_upd_idem)
  next
    case False
    with s4 have "w' = next_tick (w3\<lparr>data := (data w3)(STORAGE_KEYS_contentIndex \<mapsto> VIds (ids @ [c_id c]))\<rparr>)"
      by (auto simp: setContentIndex_def dest: storage_set_Inr)
    then show ?thesis
      using False idx ne w1 w2 w3 by (auto simp: data_next_tick key_simps)
  qed
qed

lemma stored_piece_upd_index:
  "stored_piece (d(STORAGE_KEYS_contentIndex \<mapsto> VIds xs)) i =
     (if i = ''index'' then None else stored_piece d i)"
  by (simp add: stored_piece_def key_simps)

lemma stored_piece_upd_content:
  "stored_piece (d(STORAGE_KEYS_content j \<mapsto> VPiece c)) i =
     (if i = j then Some c else stored_piece d i)"
  by (simp add: stored_piece_def key_simps)

lemma index_ids_upd:
  "index_ids k (d(k \<mapsto> VIds xs)) = Some xs"
  by (simp add: index_ids_def)

lemma index_not_piece:
  "index_ids STORAGE_KEYS_contentIndex d = Some ids \<Longrightarrow> stored_piece d ''index'' = None"
  by (auto simp: index_ids_def stored_piece_def STORAGE_KEYS_content_def STORAGE_KEYS_contentIndex_def
      split: option.splits jsval.splits)

lemma setContent_consistent:
  assumes "content_consistent (data w)" and "setContent E c w = (Inr u, w')"
  shows "content_consistent (data w')"
proof -
  from setContent_Inr [OF assms(2)] obtain ids where
    idx: "index_ids STORAGE_KEYS_contentIndex (data w) = Some ids" and ne: "c_id c \<noteq> ''index''" and
    d': "data w' = (data w)(STORAGE_KEYS_content (c_id c) \<mapsto> VPiece c,
          STORAGE_KEYS_contentIndex \<mapsto> VIds (if c_id c \<in> set ids then ids else ids @ [c_id c]))"
    by blast
  from assms(1) idx have eq: "set ids = {i. stored_piece (data w) i \<noteq> None}"
    by (auto simp: content_consistent_def)
  have "stored_piece (data w) ''index'' = None"
    using idx by (rule index_not_piece)
  with eq ne show ?thesis
    unfolding content_consistent_def d'
    by (auto simp: index_ids_upd stored_piece_upd_index stored_piece_upd_content)
qed

lemma reliable_mock: "reliable mock_env"
  by (simp add: reliable_def mock_env_def)


lemma deleteContentById_Inr:
  assumes "deleteContentById E i w = (Inr b, w')"
  shows "b = (data w (STORAGE_KEYS_content i) \<noteq> None) \<and>
         (if b then \<exists>ids. index_ids STORAGE_KEYS_contentIndex ((data w)(STORAGE_KEYS_content i := None)) = Some ids \<and>
                 data w' = (data w)(STORAGE_KEYS_content i := None,
                                    STORAGE_KEYS_contentIndex \<mapsto> VIds (filter (\<lambda>j. j \<noteq> i) ids))
          else data w' = data w)"
proof -
  from assms obtain x w1 where
    s1: "storage_delete E (STORAGE_KEYS_content i) w = (Inr x, w1)" and
    s2: "(if x then
           io_bind (getContentIndex E) (\<lambda>index.
           io_bind (array_of ''index.filter is not a function'' index) (\<lambda>ids.
           io_bind (setContentIndex E (filter (\<lambda>j. j \<noteq> i) ids)) (\<lambda>_.
             io_return x)))
         else io_return x) w1 = (Inr b, w')"
    unfolding deleteContentById_def by (blast dest: io_bind_Inr)
  from s1 have x: "x = (data w (STORAGE_KEYS_content i) \<noteq> None)"
    and w1: "w1 = next_tick (w\<lparr>data := (data w)(STORAGE_KEYS_content i := None)\<rparr>)"
    by (auto dest: storage_delete_Inr)
  show ?thesis
  proof (cases x)
    case False
    with s2 have "w' = w1" and "b = x" by (simp_all add: io_return_def)
    with False x w1 show ?thesis by (auto simp: data_next_tick)
  next
    case True
    with s2 obtain v w2 where
      t1: "getContentIndex E w1 = (Inr v, w2)" and
      r1: "io_bind (array_of ''index.filter is not a function'' v) (\<lambda>ids.
           io_bind (setContentIndex E (filter (\<lambda>j. j \<noteq> i) ids)) (\<lambda>_.
             io_return x)) w2 = (Inr b, w')"
      by (auto dest: io_bind_Inr)
    from r1 obtain ids w3 where
      t2: "array_of ''index.filter is not a function'' v w2 = (Inr ids, w3)" and
      r2: "io_bind (setContentIndex E (filter (\<lambda>j. j \<noteq> i) ids)) (\<lambda>_. io_return x) w3 = (Inr b, w')"
      by (auto dest: io_bind_Inr)
    from r2 obtain u w4 where
      t3: "setContentIndex E (filter (\<lambda>j. j \<noteq> i) ids) w3 = (Inr u, w4)" and
      t4: "io_return x w4 = (Inr b, w')"
      by (auto dest: io_bind_Inr)
    from t4 have bx: "b = x" and w': "w' = w4" by (simp_all add: io_return_def)
    from t1 have v: "v = (case data w1 STORAGE_KEYS_contentIndex of None \<Rightarrow> VIds [] | Some x \<Rightarrow> x)"
      and w2: "w2 = next_tick w1" by (auto dest: getContentIndex_Inr)
    from t2 have vi: "v = VIds ids" and w3: "w3 = w2" by (auto dest: array_of_Inr)
    from t3 have w4: "w4 = next_tick (w3\<lparr>data := (data w3)(STORAGE_KEYS_contentIndex \<mapsto> VIds (filter (\<lambda>j. j \<noteq> i) ids))\<rparr>)"
      by (auto simp: setContentIndex_def dest: storage_set_Inr)
    from v vi w1 have "(case ((data w)(STORAGE_KEYS_content i := None)) STORAGE_KEYS_contentIndex of
                          None \<Rightarrow> VIds [] | Some x \<Rightarrow> x) = VIds ids"
      by (simp add: data_next_tick)
    then have "index_ids STORAGE_KEYS_contentIndex ((data w)(STORAGE_KEYS_content i := None)) = Some ids"
      by (simp only: index_read)
    with True x bx w1 w2 w3 w4 w' show ?thesis
      by (auto simp: data_next_tick)
  qed
qed

lemma stored_piece_del:
  "stored_piece (d(STORAGE_KEYS_content j := None)) i = (if i = j then None else stored_piece d i)"
  by (simp add: stored_piece_def key_simps)

lemma deleteContentById_consistent:
  assumes "content_consistent (data w)" and "deleteContentById E i w = (Inr b, w')" and "i \<noteq> ''index''"
  shows "content_consistent (data w')"
proof (cases b)
  case False
  with deleteContentById_Inr [OF assms(2)] assms(1) show ?thesis by simp
next
  case True
  with deleteContentById_Inr [OF assms(2)] obtain ids where
    idx: "index_ids STORAGE_KEYS_contentIndex ((data w)(STORAGE_KEYS_content i := None)) = Some ids" and
    d': "data w' = (data w)(STORAGE_KEYS_content i := None,
                       STORAGE_KEYS_contentIndex \<mapsto> VIds (filter (\<lambda>j. j \<noteq> i) ids))"
    by auto
  from idx assms(3) have idx0: "index_ids STORAGE_KEYS_contentIndex (data w) = Some ids"
    by (simp add: index_ids_def key_simps)
  with assms(1) have eq: "set ids = {i. stored_piece (data w) i \<noteq> None}"
    by (auto simp: content_consistent_def)
  have "stored_piece (data w) ''index'' = None"
    using idx0 by (rule index_not_piece)
  with eq show ?thesis
    unfolding content_consistent_def d'
    by (auto simp: index_ids_upd stored_piece_upd_index stored_piece_del)
qed

lemma world1_consistent: "content_consistent (data world1)"
  unfolding content_consistent_def world1_def
  by (auto simp: index_ids_def stored_piece_def key_simps split: if_splits)

lemma delete_index_world1:
  "deleteContentById mock_env ''index'' world1 =
     (Inr True, \<lparr>data = [STORAGE_KEYS_content ''00000000000000a1'' \<mapsto> VPiece piece1,
                              STORAGE_KEYS_contentIndex \<mapsto> VIds []],
                tick = 3\<rparr>)"
  by (simp add: deleteContentById_def io_bind_def io_return_def getContentIndex_def
      setContentIndex_def array_of_def storage_delete_reliable storage_get_reliable
      storage_set_reliable reliable_mock next_tick_def world1_def key_simps fun_upd_twist)


text \<open>
  C1, at the failing input: the key of the content index is the key of the content id
  \<^verbatim>\<open>index\<close>. In a consistent store of one piece, \<^verbatim>\<open>deleteContentById\<close> of that id
  deletes the index itself, reports a deletion and writes an empty index back, while the
  piece is still found by a direct lookup: the index has a missing entry.
\<close>

theorem delete_index_breaks_consistency:
  "content_consistent (data world1) \<and>
   (\<exists>w'. deleteContentById mock_env ''index'' world1 = (Inr True, w') \<and>
      stored_piece (data w') ''00000000000000a1'' = Some piece1 \<and>
      index_ids STORAGE_KEYS_contentIndex (data w') = Some [] \<and>
      \<not> content_consistent (data w'))"
proof -
  have "stored_piece [STORAGE_KEYS_content ''00000000000000a1'' \<mapsto> VPiece piece1,
          STORAGE_KEYS_contentIndex \<mapsto> VIds []] ''00000000000000a1'' = Some piece1"
    by (simp add: stored_piece_def key_simps)
  moreover have "index_ids STORAGE_KEYS_contentIndex
          [STORAGE_KEYS_content ''00000000000000a1'' \<mapsto> VPiece piece1,
           STORAGE_KEYS_contentIndex \<mapsto> VIds []] = Some []"
    by (simp add: index_ids_def)
  ultimately show ?thesis
    using world1_consistent delete_index_world1
    by (auto simp: content_consistent_def)
qed

text \<open>
  C7, at the failing input: no content record has the id \<^verbatim>\<open>index\<close>, yet
  \<^verbatim>\<open>deleteContent\<close> of it answers \<^verbatim>\<open>success\<close>, empties the index (the piece that was
  listed is no longer listed, though it was not deleted), and answers \<^verbatim>\<open>success\<close>
  again the second time.
\<close>

theorem deleteContent_index_succeeds_twice:
  "stored_piece (data world1) ''index'' = None \<and>
   index_ids STORAGE_KEYS_contentIndex (data world1) = Some [''00000000000000a1''] \<and>
   (\<exists>r1 w1 r2 w2.
      deleteContent mock_env (no_input\<lparr>in_contentId := Some ''index''\<rparr>) world1 = (Inr r1, w1) \<and>
      template_of r1 = Some (JStr ''success'') \<and>
      index_ids STORAGE_KEYS_contentIndex (data w1) = Some [] \<and>
      stored_piece (data w1) ''00000000000000a1'' = Some piece1 \<and>
      deleteContent mock_env (no_input\<lparr>in_contentId := Some ''index''\<rparr>) w1 = (Inr r2, w2) \<and>
      template_of r2 = Some (JStr ''success''))"
proof -
  have a: "stored_piece (data world1) ''index'' = None"
    by (simp add: world1_def stored_piece_def key_simps)
  have b: "index_ids STORAGE_KEYS_contentIndex (data world1) = Some [''00000000000000a1'']"
    by (simp add: world1_def index_ids_def)
  let ?w1 = "\<lparr>data = [STORAGE_KEYS_content ''00000000000000a1'' \<mapsto> VPiece piece1,
                       STORAGE_KEYS_contentIndex \<mapsto> VIds []], tick = 3\<rparr>"
  have c: "deleteContent mock_env (no_input\<lparr>in_contentId := Some ''index''\<rparr>) world1 =
             (Inr (template_result [(''template'', JStr ''success'')]), ?w1)"
    by (simp add: deleteContent_def Let_def js_str_def no_input_def io_bind_def io_return_def
        delete_index_world1)
  have d: "\<exists>w2. deleteContent mock_env (no_input\<lparr>in_contentId := Some ''index''\<rparr>) ?w1 =
             (Inr (template_result [(''template'', JStr ''success'')]), w2)"
    by (simp add: deleteContent_def Let_def js_str_def no_input_def deleteContentById_def io_bind_def
        io_return_def getContentIndex_def setContentIndex_def array_of_def
        storage_delete_reliable storage_get_reliable storage_set_reliable reliable_mock
        next_tick_def key_simps)
  have e: "template_of (template_result [(''template'', JStr ''success'')]) = Some (JStr ''success'')"
    by (simp add: template_of_def template_result_def)
  have f: "index_ids STORAGE_KEYS_contentIndex (data ?w1) = Some []"
    by (simp add: index_ids_def)
  have g: "stored_piece (data ?w1) ''00000000000000a1'' = Some piece1"
    by (simp add: stored_piece_def key_simps)
  from a b c d e f g show ?thesis by blast
qed

lemma io_catch_cases:
  "io_catch m h w = (case m w of (Inl e, w') \<Rightarrow> h e w' | (Inr x, w') \<Rightarrow> (Inr x, w'))"
  by (simp add: io_catch_def)

lemma dispatch_unknown:
  "action \<notin> set known_actions \<Longrightarrow>
     dispatch E action i c = io_return (invoke_error (''Unknown action: '' @ action))"
  by (auto simp: dispatch_def known_actions_def)

text \<open>
  C2: \<^verbatim>\<open>invoke\<close> always returns a result and never an exception. The error envelope
  is the template response whose data are the template \<^verbatim>\<open>error\<close> and a message.
  Without a storage the message is \<^verbatim>\<open>Storage not provided\<close>; with one, an action name
  that is not one of the seven gives the message \<^verbatim>\<open>Unknown action: <name>\<close>, and an
  exception of the handler the name selects is returned as the error envelope with the
  message of the exception (\<^verbatim>\<open>Unknown error\<close> for a thrown value that is no
  \<^verbatim>\<open>Error\<close>), in the world the handler left. A result of the handler is passed on.
\<close>

theorem invoke_never_throws:
  "\<exists>r w'. invoke E input w = (Inr r, w') \<and>
     (inv_storage input = None \<longrightarrow>
        r = \<lparr>responseMode = Template,
             agentData = Some [(''template'', JStr ''error''), (''message'', JStr ''Storage not provided'')],
             userContent = None\<rparr> \<and> w' = w) \<and>
     (inv_storage input \<noteq> None \<longrightarrow>
        (inv_action input \<notin> {''addInspiration'', ''listContent'', ''getContent'', ''createArticle'',
                               ''listArticles'', ''updateArticle'', ''deleteContent''} \<longrightarrow>
           r = \<lparr>responseMode = Template,
                agentData = Some [(''template'', JStr ''error''),
                                  (''message'', JStr (''Unknown action: '' @ inv_action input))],
                userContent = None\<rparr> \<and> w' = w) \<and>
        (\<forall>h \<in> {(''addInspiration'', addInspiration E (inv_input input)),
                 (''listContent'', listContent E (inv_input input)),
                 (''getContent'', getContentAction E (inv_input input)),
                 (''createArticle'', createArticle E (inv_input input) (inv_config input)),
                 (''listArticles'', listArticles E (inv_input input)),
                 (''updateArticle'', updateArticle E (inv_input input) (inv_config input)),
                 (''deleteContent'', deleteContent E (inv_input input))}.
           inv_action input = fst h \<longrightarrow>
             (\<forall>message w1. snd h w = (Inl (Error message), w1) \<longrightarrow>
                r = \<lparr>responseMode = Template,
                     agentData = Some [(''template'', JStr ''error''), (''message'', JStr message)],
                     userContent = None\<rparr> \<and> w' = w1) \<and>
             (\<forall>w1. snd h w = (Inl Thrown, w1) \<longrightarrow>
                r = \<lparr>responseMode = Template,
                     agentData = Some [(''template'', JStr ''error''), (''message'', JStr ''Unknown error'')],
                     userContent = None\<rparr> \<and> w' = w1) \<and>
             (\<forall>r1 w1. snd h w = (Inr r1, w1) \<longrightarrow> r = r1 \<and> w' = w1)))"
proof (cases "inv_storage input")
  case None
  then show ?thesis
    by (simp add: invoke_def io_return_def invoke_error_def template_result_def)
next
  case (Some s)
  have k: "set known_actions = {''addInspiration'', ''listContent'', ''getContent'', ''createArticle'',
                               ''listArticles'', ''updateArticle'', ''deleteContent''}"
    by (simp add: known_actions_def)
  obtain res w1 where d: "dispatch E (inv_action input) (inv_input input) (inv_config input) w = (res, w1)"
    by (cases "dispatch E (inv_action input) (inv_input input) (inv_config input) w")
  show ?thesis
  proof (cases res)
    case (Inl e)
    with Some d have i: "invoke E input w = (Inr (invoke_error (error_message e)), w1)"
      by (simp add: invoke_def io_catch_def io_return_def)
    have u: "inv_action input \<notin> set known_actions \<Longrightarrow> False"
      using d Inl by (simp add: dispatch_unknown io_return_def)
    show ?thesis
    proof (cases e)
      case (Error message)
      with i Some d Inl u show ?thesis
        unfolding k [symmetric]
        by (auto simp: invoke_error_def template_result_def error_message_def) (auto simp: dispatch_def)
    next
      case Thrown
      with i Some d Inl u show ?thesis
        unfolding k [symmetric]
        by (auto simp: invoke_error_def template_result_def error_message_def) (auto simp: dispatch_def)
    qed
  next
    case (Inr r1)
    with Some d have "invoke E input w = (Inr r1, w1)"
      by (simp add: invoke_def io_catch_def)
    with Some d Inr show ?thesis
      unfolding k [symmetric]
      by (auto simp: dispatch_unknown io_return_def invoke_error_def template_result_def)
         (auto simp: dispatch_def)
  qed
qed


lemma mock_env_fields:
  "storage_fault mock_env = (\<lambda>_. None)"
  "getTime mock_env = mock_getTime"
  "process_env mock_env = None"
  "parseURL mock_env = (\<lambda>_ _. Inl (Error ''Status code 404''))"
  "fetch_page mock_env = (\<lambda>_ _. Inr (''Example Domain'', ''This domain is for use in examples.''))"
  "chat_completion mock_env = (\<lambda>_ _ _. Inr (Some ''A short summary.''))"
  "match_h1 mock_env = (\<lambda>_. None)"
  by (simp_all add: mock_env_def)

lemmas run_defs = io_bind_def io_return_def io_throw_def io_catch_def ask_def ask_result_def
  next_tick_def Let_def

lemmas storage_mock = storage_get_reliable [OF reliable_mock] storage_set_reliable [OF reliable_mock]
  storage_delete_reliable [OF reliable_mock]

lemma createArticle_no_key_world1:
  "createArticle mock_env (no_input\<lparr>in_contentIds := Some [''00000000000000a1'']\<rparr>) None world1 =
     (Inl (Error ''OPENAI_API_KEY not configured''), world1\<lparr>tick := 1\<rparr>)"
  by (simp add: createArticle_def no_input_def run_defs getContent_def storage_mock
      getOpenAI_def or_opt_def truthy_def world1_def mock_env_fields)

theorem invoke_never_throws_witness:
  "invoke mock_env \<lparr>inv_action = ''listContent'', inv_input = no_input, inv_storage = None,
                     inv_config = None\<rparr> world1
     = (Inr \<lparr>responseMode = Template,
             agentData = Some [(''template'', JStr ''error''), (''message'', JStr ''Storage not provided'')],
             userContent = None\<rparr>, world1) \<and>
   invoke mock_env \<lparr>inv_action = ''purge'', inv_input = no_input, inv_storage = Some StorageProxy,
                     inv_config = None\<rparr> world1
     = (Inr \<lparr>responseMode = Template,
             agentData = Some [(''template'', JStr ''error''), (''message'', JStr ''Unknown action: purge'')],
             userContent = None\<rparr>, world1) \<and>
   invoke mock_env \<lparr>inv_action = ''createArticle'',
                     inv_input = no_input\<lparr>in_contentIds := Some [''00000000000000a1'']\<rparr>,
                     inv_storage = Some StorageProxy, inv_config = None\<rparr> world1
     = (Inr \<lparr>responseMode = Template,
             agentData = Some [(''template'', JStr ''error''),
                               (''message'', JStr ''OPENAI_API_KEY not configured'')],
             userContent = None\<rparr>, world1\<lparr>tick := 1\<rparr>)"
proof -
  show ?thesis
    using
      invoke_never_throws [of mock_env "\<lparr>inv_action = ''listContent'', inv_input = no_input,
        inv_storage = None, inv_config = None\<rparr>" world1]
      invoke_never_throws [of mock_env "\<lparr>inv_action = ''purge'', inv_input = no_input,
        inv_storage = Some StorageProxy, inv_config = None\<rparr>" world1]
      invoke_never_throws [of mock_env "\<lparr>inv_action = ''createArticle'',
        inv_input = no_input\<lparr>in_contentIds := Some [''00000000000000a1'']\<rparr>,
        inv_storage = Some StorageProxy, inv_config = None\<rparr>" world1]
      createArticle_no_key_world1
    by auto
qed

lemma ticks_add: "next_tick (w\<lparr>tick := tick w + n\<rparr>) = w\<lparr>tick := tick w + Suc n\<rparr>"
  by (simp add: next_tick_def)

lemma getContent_reliable:
  "reliable E \<Longrightarrow> getContent E i w = (Inr (data w (STORAGE_KEYS_content i)), next_tick w)"
  by (simp add: getContent_def storage_get_reliable)

lemma getArticle_reliable:
  "reliable E \<Longrightarrow> getArticle E i w = (Inr (data w (STORAGE_KEYS_article i)), next_tick w)"
  by (simp add: getArticle_def storage_get_reliable)

lemma load_all_content_reliable:
  "reliable E \<Longrightarrow>
     load_all (getContent E) ids w =
       (Inr (List.map_filter (\<lambda>i. data w (STORAGE_KEYS_content i)) ids), w\<lparr>tick := tick w + length ids\<rparr>)"
proof (induction ids arbitrary: w)
  case Nil
  then show ?case by (simp add: io_return_def map_filter_simps)
next
  case (Cons i ids)
  have "load_all (getContent E) ids (next_tick w) =
          (Inr (List.map_filter (\<lambda>i. data w (STORAGE_KEYS_content i)) ids),
           w\<lparr>tick := tick w + Suc (length ids)\<rparr>)"
    using Cons.IH [OF Cons.prems, of "next_tick w"] by (simp add: next_tick_def)
  moreover have "getContent E i w = (Inr (data w (STORAGE_KEYS_content i)), next_tick w)"
    using Cons.prems by (rule getContent_reliable)
  ultimately show ?case
    by (simp add: io_bind_ok io_return_def map_filter_simps split: option.splits)
qed

lemma load_all_article_reliable:
  "reliable E \<Longrightarrow>
     load_all (getArticle E) ids w =
       (Inr (List.map_filter (\<lambda>i. data w (STORAGE_KEYS_article i)) ids), w\<lparr>tick := tick w + length ids\<rparr>)"
proof (induction ids arbitrary: w)
  case Nil
  then show ?case by (simp add: io_return_def map_filter_simps)
next
  case (Cons i ids)
  have "load_all (getArticle E) ids (next_tick w) =
          (Inr (List.map_filter (\<lambda>i. data w (STORAGE_KEYS_article i)) ids),
           w\<lparr>tick := tick w + Suc (length ids)\<rparr>)"
    using Cons.IH [OF Cons.prems, of "next_tick w"] by (simp add: next_tick_def)
  moreover have "getArticle E i w = (Inr (data w (STORAGE_KEYS_article i)), next_tick w)"
    using Cons.prems by (rule getArticle_reliable)
  ultimately show ?case
    by (simp add: io_bind_ok io_return_def map_filter_simps split: option.splits)
qed

lemma pieces_of_listed:
  "pieces_only d ids \<Longrightarrow>
     pieces_of (List.map_filter (\<lambda>i. d (STORAGE_KEYS_content i)) ids) = Some (listed_pieces d ids)"
  by (induction ids)
     (auto simp: pieces_only_def listed_pieces_def stored_piece_def map_filter_simps
       split: option.splits jsval.splits)

lemma articles_of_listed:
  "articles_only d ids \<Longrightarrow>
     List.map_filter (\<lambda>i. d (STORAGE_KEYS_article i)) ids = map VArticle (listed_articles d ids)"
  by (induction ids)
     (auto simp: articles_only_def listed_articles_def stored_article_def map_filter_simps
       split: option.splits jsval.splits)

lemma articles_have_updatedAt: "\<not> list_ex (\<lambda>a. prop_updatedAt a = None) (map VArticle as)"
  by (induction as) simp_all

lemma elements_ids: "elements what (VIds ids) w = (Inr (map Some ids), w)"
  by (simp add: elements_def io_return_def)

lemma js_str_Some: "map js_str (map Some ids) = ids" "map (js_str \<circ> Some) ids = ids"
  by (induction ids) (simp_all add: js_str_def)

lemma getContentIndex_reliable:
  "reliable E \<Longrightarrow> index_ids STORAGE_KEYS_contentIndex (data w) = Some ids \<Longrightarrow>
     getContentIndex E w = (Inr (VIds ids), next_tick w)"
  by (auto simp: getContentIndex_def storage_get_reliable io_bind_def io_return_def index_ids_def
      split: option.splits jsval.splits)

lemma getArticleIndex_reliable:
  "reliable E \<Longrightarrow> index_ids STORAGE_KEYS_articleIndex (data w) = Some ids \<Longrightarrow>
     getArticleIndex E w = (Inr (VIds ids), next_tick w)"
  by (auto simp: getArticleIndex_def storage_get_reliable io_bind_def io_return_def index_ids_def
      split: option.splits jsval.splits)

text \<open>Sums of integers up to \<open>2^53\<close> in magnitude are exact.\<close>

declare js_plus.simps [simp del]

lemma round_half_even_of_int: "round_half_even (of_int k) = k"
  by (simp add: round_half_even_def)

lemma ieee_round_pos:
  assumes "0 < m" and "m \<le> 2 ^ 53"
  shows "(let a = (of_int m :: rat);
            e = max (ilog2 a) (- 1022);
            q = 2 powi (e - 52)
        in of_int (round_half_even (a / q)) * q) = of_int m"
proof -
  have il: "ilog2 (of_int m) = bitlen m - 1"
    using assms(1) by (simp add: ilog2_def)
  have b1: "1 \<le> bitlen m"
    using assms(1) bitlen_eq_zero_iff [of m] bitlen_nonneg [of m] by linarith
  then have e: "max (bitlen m - 1) (- 1022) = bitlen m - 1"
    by simp
  have u: "(let a = (of_int m :: rat);
            e = max (ilog2 a) (- 1022);
            q = 2 powi (e - 52)
        in of_int (round_half_even (a / q)) * q) =
      of_int (round_half_even (of_int m / 2 powi (bitlen m - 1 - 52))) * 2 powi (bitlen m - 1 - 52)"
    by (simp only: Let_def il e)
  show ?thesis
  proof (cases "m = 2 ^ 53")
    case True
    have "bitlen m = 54"
      using bitlen_twopow_add_eq [of 0 53] True by simp
    then have q: "(2::rat) powi (bitlen m - 1 - 52) = 2"
      by simp
    have "(of_int m :: rat) / 2 = of_int (2 ^ 52)"
      using True by simp
    then have "round_half_even ((of_int m :: rat) / 2) = 2 ^ 52"
      by (simp only: round_half_even_of_int)
    then show ?thesis
      unfolding u q using True by simp
  next
    case False
    with assms have "m < 2 ^ 53" by simp
    then have "bitlen m \<le> 53"
      by (simp add: bitlen_le_iff_power)
    define k where "k = nat (53 - bitlen m)"
    have q: "(2::rat) powi (bitlen m - 1 - 52) = 1 / 2 ^ k"
      using \<open>bitlen m \<le> 53\<close> unfolding k_def
      by (simp add: power_int_def field_simps nat_diff_distrib)
    have "(of_int m :: rat) / (1 / 2 ^ k) = of_int (m * 2 ^ k)"
      by simp
    then have "round_half_even ((of_int m :: rat) / (1 / 2 ^ k)) = m * 2 ^ k"
      by (simp only: round_half_even_of_int)
    then show ?thesis
      unfolding u q by simp
  qed
qed

lemma ieee_round_of_int:
  assumes "\<bar>n\<bar> \<le> 2 ^ 53"
  shows "ieee_round (of_int n) = Num (of_int n)"
proof (cases "n = 0")
  case True
  then show ?thesis by (simp add: ieee_round_def)
next
  case False
  define m where "m = \<bar>n\<bar>"
  have m: "0 < m" "m \<le> 2 ^ 53"
    using False assms by (simp_all add: m_def)
  have a: "\<bar>of_int n :: rat\<bar> = of_int m"
    by (simp add: m_def)
  have "(of_int m :: rat) \<le> 2 ^ 53"
    using m(2) by (metis of_int_le_iff of_int_numeral of_int_power)
  also have "\<dots> < 2 ^ 1024"
    by simp
  finally have lt: "\<not> (2 :: rat) ^ 1024 \<le> of_int m"
    by simp
  have s: "sgn (of_int n :: rat) * of_int m = of_int n"
    by (simp add: m_def sgn_if)
  from ieee_round_pos [OF m] False show ?thesis
    unfolding ieee_round_def a Let_def by (simp only: lt s of_int_eq_0_iff if_False)
qed

lemma js_plus_int:
  "\<bar>a + b\<bar> \<le> 2 ^ 53 \<Longrightarrow> js_plus (Num (of_int a)) (Num (of_int b)) = Num (of_int (a + b))"
  using ieee_round_of_int [of "a + b"] by (simp add: js_plus.simps)

lemma js_incr_exact: "\<bar>v + 1\<bar> \<le> 2 ^ 53 \<Longrightarrow> js_incr v = v + 1"
  using js_plus_int [of v 1] by (simp add: js_incr_def)

lemma js_trunc_of_int: "js_trunc (of_int i) = i"
  by (simp add: js_trunc_def)

lemma relative_index_int:
  "relative_index n (Num (of_int i)) = (if i < 0 then max (n + i) 0 else min i n)"
  by (simp add: relative_index_def js_trunc_of_int)


lemma js_plus_examples:
  "js_plus (Num 0) (Num 20) = Num 20"
  "js_plus (Num 1) (Num 1) = Num 2"
  "js_plus (Num 0) (Num (- 1)) = Num (- 1)"
  "js_plus (Num (1 / 2)) (Num (1 / 2)) = Num 1"
  using js_plus_int [of 0 20] js_plus_int [of 1 1] js_plus_int [of 0 "- 1"] ieee_round_of_int [of 1]
  by (simp_all add: js_plus.simps)

text \<open>
  Beyond \<open>2^53\<close> the increment is no longer exact: \<open>2^53 + 1\<close> is no double and the
  sum rounds back to \<open>2^53\<close>, so a version that has reached it stays.
\<close>

lemma js_incr_at_2_53: "js_incr (2 ^ 53) = 2 ^ 53"
  by code_simp

lemma relative_index_examples:
  "relative_index n (Num 0) = min 0 n"
  "relative_index n (Num 1) = min 1 n"
  "relative_index n (Num 2) = min 2 n"
  "relative_index n (Num 20) = min 20 n"
  "relative_index n (Num (- 1)) = max (n + - 1) 0"
  "relative_index n (Num (1 / 2)) = min 0 n"
proof -
  have "\<lfloor>1 / 2 :: rat\<rfloor> = 0"
    by (rule floor_unique) simp_all
  then show "relative_index n (Num (1 / 2)) = min 0 n"
    by (simp add: relative_index_def js_trunc_def)
qed (use relative_index_int [of n 0] relative_index_int [of n 1] relative_index_int [of n 2]
      relative_index_int [of n 20] relative_index_int [of n "- 1"] in simp_all)

text \<open>What \<^verbatim>\<open>listContent\<close> returns on a storage that answers, for a typed store.\<close>

lemma listContent_run:
  assumes "reliable E"
    and "index_ids STORAGE_KEYS_contentIndex (data w) = Some ids"
    and "pieces_only (data w) ids"
  shows "listContent E input w =
     (if ids = [] then (Inr list_empty, next_tick w)
      else
        (let ps = sort_newest E (filter_tags (case in_tags input of None \<Rightarrow> [] | Some t \<Rightarrow> t)
                    (listed_pieces (data w) ids));
             offset = or_num (in_offset input) (Num 0);
             limit = or_num (in_limit input) (Num 20)
         in (Inr (list_success (length ps) (map content_summary (js_slice offset (js_plus offset limit) ps))),
             w\<lparr>tick := tick w + Suc (length ids)\<rparr>)))"
proof (cases "ids = []")
  case True
  with assms show ?thesis
    by (simp add: listContent_def Let_def io_bind_def getContentIndex_reliable array_of_def io_return_def)
next
  case False
  have l: "load_all (getContent E) ids (next_tick w) =
      (Inr (List.map_filter (\<lambda>i. data w (STORAGE_KEYS_content i)) ids),
       w\<lparr>tick := tick w + Suc (length ids)\<rparr>)"
    using load_all_content_reliable [OF assms(1), of ids "next_tick w"] by (simp add: next_tick_def)
  from False assms show ?thesis
    by (simp add: listContent_def Let_def io_bind_def getContentIndex_reliable array_of_def
        io_return_def l pieces_of_listed)
qed

lemma listArticles_run:
  assumes "reliable E"
    and "index_ids STORAGE_KEYS_articleIndex (data w) = Some ids"
    and "articles_only (data w) ids"
  shows "listArticles E input w =
     (if ids = [] then (Inr list_empty, next_tick w)
      else
        (let as = sort_updated E (map VArticle (listed_articles (data w) ids));
             offset = or_num (in_offset input) (Num 0);
             limit = or_num (in_limit input) (Num 20)
         in (Inr (list_success (length as) (map article_summary (js_slice offset (js_plus offset limit) as))),
             w\<lparr>tick := tick w + Suc (length ids)\<rparr>)))"
proof (cases "ids = []")
  case True
  with assms show ?thesis
    by (simp add: listArticles_def Let_def io_bind_def getArticleIndex_reliable elements_ids io_return_def)
next
  case False
  have l: "load_all (getArticle E) ids (next_tick w) =
      (Inr (map VArticle (listed_articles (data w) ids)),
       w\<lparr>tick := tick w + Suc (length ids)\<rparr>)"
    using load_all_article_reliable [OF assms(1), of ids "next_tick w"] assms(3)
    by (simp add: next_tick_def articles_of_listed)
  from False assms show ?thesis
    by (simp add: listArticles_def Let_def io_bind_def getArticleIndex_reliable elements_ids
        js_str_Some io_return_def l articles_have_updatedAt)
qed






lemma world1_index: "index_ids STORAGE_KEYS_contentIndex (data world1) = Some [''00000000000000a1'']"
  by (simp add: world1_def index_ids_def)

lemma world1_typed: "pieces_only (data world1) [''00000000000000a1'']"
  by (simp add: world1_def pieces_only_def key_simps)

lemma world1_listed: "listed_pieces (data world1) [''00000000000000a1''] = [piece1]"
  by (simp add: world1_def listed_pieces_def stored_piece_def map_filter_simps key_simps)

lemma world3_index:
  "index_ids STORAGE_KEYS_contentIndex (data world3) =
     Some [''00000000000000a1'', ''00000000000000a2'', ''00000000000000a3'']"
  by (simp add: world3_def index_ids_def)

lemma world3_typed:
  "pieces_only (data world3) [''00000000000000a1'', ''00000000000000a2'', ''00000000000000a3'']"
  by (simp add: world3_def pieces_only_def key_simps)

lemma world3_listed:
  "listed_pieces (data world3) [''00000000000000a1'', ''00000000000000a2'', ''00000000000000a3'']
     = [piece1, piece2, piece3]"
  by (simp add: world3_def listed_pieces_def stored_piece_def map_filter_simps key_simps)







text \<open>
  The bound on the page needs the integers: with the offset and the limit \<open>1/2\<close> the
  slice runs from 0 to 1 and returns one piece.
\<close>

lemma listContent_fractional_limit:
  "listContent mock_env (no_input\<lparr>in_limit := Some (Num (1 / 2)), in_offset := Some (Num (1 / 2))\<rparr>) world1 =
     (Inr (list_success 1 [content_summary piece1]), world1\<lparr>tick := 2\<rparr>)"
proof -
  have s: "sort_newest mock_env [piece1] = [piece1]"
    by (simp add: sort_newest_def)
  have p: "js_slice (Num (1 / 2)) (js_plus (Num (1 / 2)) (Num (1 / 2))) [piece1] = [piece1]"
    by (simp add: js_slice_def js_plus_examples relative_index_examples)
  have "tick world1 = 0" by (simp add: world1_def)
  then show ?thesis
    using listContent_run [OF reliable_mock world1_index world1_typed,
        of "no_input\<lparr>in_limit := Some (Num (1 / 2)), in_offset := Some (Num (1 / 2))\<rparr>"]
    by (simp add: world1_listed no_input_def or_num_def filter_tags_def s p numeral_2_eq_2)
qed

lemma world2_article_index:
  "index_ids STORAGE_KEYS_articleIndex (data world2) = Some [''00000000000000b1'']"
  by (simp add: world2_def index_ids_def key_simps)

lemma world2_articles_typed: "articles_only (data world2) [''00000000000000b1'']"
  by (simp add: world2_def articles_only_def key_simps)

lemma world2_articles_listed: "listed_articles (data world2) [''00000000000000b1''] = [article1]"
  by (simp add: world2_def listed_articles_def stored_article_def map_filter_simps key_simps)

lemma or_num_zero: "or_num (Some (Num 0)) d = d" "or_num (Some NaN) d = d" "or_num None d = d"
  by (simp_all add: or_num_def)

lemma js_slice_from_start:
  "length (js_slice (Num 0) (js_plus (Num 0) (Num 20)) xs) = min 20 (length xs)"
  by (auto simp: js_slice_def js_plus_examples relative_index_examples Let_def min_def)

lemma sort_newest_length: "length (sort_newest E cs) = length cs"
  by (simp add: sort_newest_def)

lemma sort_updated_length: "length (sort_updated E as) = length as"
  by (simp add: sort_updated_def)

text \<open>
  C10: the defaults are applied with \<^verbatim>\<open>||\<close>, so a limit of 0 is the limit 20 and an
  offset of 0 is the absent offset, in \<^verbatim>\<open>listContent\<close> and in \<^verbatim>\<open>listArticles\<close>
  (and so is \<^verbatim>\<open>NaN\<close>, the other falsy number). With
  the limit 0, no offset and no tag filter, the listing returns the first 20 records
  (all of them when there are fewer), not none.
\<close>

theorem zero_limit_is_the_default:
  "listContent E (input\<lparr>in_limit := Some (Num 0)\<rparr>) = listContent E (input\<lparr>in_limit := None\<rparr>) \<and>
   listContent E (input\<lparr>in_limit := Some (Num 0)\<rparr>) = listContent E (input\<lparr>in_limit := Some (Num 20)\<rparr>) \<and>
   listContent E (input\<lparr>in_offset := Some (Num 0)\<rparr>) = listContent E (input\<lparr>in_offset := None\<rparr>) \<and>
   listContent E (input\<lparr>in_limit := Some NaN\<rparr>) = listContent E (input\<lparr>in_limit := None\<rparr>) \<and>
   listContent E (input\<lparr>in_offset := Some NaN\<rparr>) = listContent E (input\<lparr>in_offset := None\<rparr>) \<and>
   listArticles E (input\<lparr>in_limit := Some (Num 0)\<rparr>) = listArticles E (input\<lparr>in_limit := None\<rparr>) \<and>
   listArticles E (input\<lparr>in_limit := Some (Num 0)\<rparr>) = listArticles E (input\<lparr>in_limit := Some (Num 20)\<rparr>) \<and>
   listArticles E (input\<lparr>in_offset := Some (Num 0)\<rparr>) = listArticles E (input\<lparr>in_offset := None\<rparr>) \<and>
   listArticles E (input\<lparr>in_limit := Some NaN\<rparr>) = listArticles E (input\<lparr>in_limit := None\<rparr>) \<and>
   listArticles E (input\<lparr>in_offset := Some NaN\<rparr>) = listArticles E (input\<lparr>in_offset := None\<rparr>) \<and>
   (reliable E \<and> index_ids STORAGE_KEYS_contentIndex (data w) = Some ids \<and> ids \<noteq> [] \<and>
    pieces_only (data w) ids \<and> in_tags input = None \<and> in_offset input = None \<longrightarrow>
      (\<exists>r w'. listContent E (input\<lparr>in_limit := Some (Num 0)\<rparr>) w = (Inr r, w') \<and>
         agent_field ''returnedCount'' r =
           Some (JNum (int (min 20 (length (listed_pieces (data w) ids))))))) \<and>
   (reliable E \<and> index_ids STORAGE_KEYS_articleIndex (data w) = Some ids \<and> ids \<noteq> [] \<and>
    articles_only (data w) ids \<and> in_offset input = None \<longrightarrow>
      (\<exists>r w'. listArticles E (input\<lparr>in_limit := Some (Num 0)\<rparr>) w = (Inr r, w') \<and>
         agent_field ''returnedCount'' r =
           Some (JNum (int (min 20 (length (listed_articles (data w) ids)))))))"
proof -
  have a: "listContent E (input\<lparr>in_limit := Some (Num 0)\<rparr>) = listContent E (input\<lparr>in_limit := None\<rparr>)"
    "listContent E (input\<lparr>in_limit := Some (Num 0)\<rparr>) = listContent E (input\<lparr>in_limit := Some (Num 20)\<rparr>)"
    "listContent E (input\<lparr>in_offset := Some (Num 0)\<rparr>) = listContent E (input\<lparr>in_offset := None\<rparr>)"
    "listContent E (input\<lparr>in_limit := Some NaN\<rparr>) = listContent E (input\<lparr>in_limit := None\<rparr>)"
    "listContent E (input\<lparr>in_offset := Some NaN\<rparr>) = listContent E (input\<lparr>in_offset := None\<rparr>)"
    by (simp_all add: listContent_def or_num_def)
  have b: "listArticles E (input\<lparr>in_limit := Some (Num 0)\<rparr>) = listArticles E (input\<lparr>in_limit := None\<rparr>)"
    "listArticles E (input\<lparr>in_limit := Some (Num 0)\<rparr>) = listArticles E (input\<lparr>in_limit := Some (Num 20)\<rparr>)"
    "listArticles E (input\<lparr>in_offset := Some (Num 0)\<rparr>) = listArticles E (input\<lparr>in_offset := None\<rparr>)"
    "listArticles E (input\<lparr>in_limit := Some NaN\<rparr>) = listArticles E (input\<lparr>in_limit := None\<rparr>)"
    "listArticles E (input\<lparr>in_offset := Some NaN\<rparr>) = listArticles E (input\<lparr>in_offset := None\<rparr>)"
    by (simp_all add: listArticles_def or_num_def)
  have c: "\<exists>r w'. listContent E (input\<lparr>in_limit := Some (Num 0)\<rparr>) w = (Inr r, w') \<and>
         agent_field ''returnedCount'' r =
           Some (JNum (int (min 20 (length (listed_pieces (data w) ids)))))"
    if "reliable E" "index_ids STORAGE_KEYS_contentIndex (data w) = Some ids" "ids \<noteq> []"
       "pieces_only (data w) ids" "in_tags input = None" "in_offset input = None"
    using listContent_run [OF that(1,2,4), of "input\<lparr>in_limit := Some (Num 0)\<rparr>"] that(3,5,6)
    by (simp add: Let_def or_num_def filter_tags_def list_success_def agent_field_def
        template_result_def js_slice_from_start sort_newest_length)
  have d: "\<exists>r w'. listArticles E (input\<lparr>in_limit := Some (Num 0)\<rparr>) w = (Inr r, w') \<and>
         agent_field ''returnedCount'' r =
           Some (JNum (int (min 20 (length (listed_articles (data w) ids)))))"
    if "reliable E" "index_ids STORAGE_KEYS_articleIndex (data w) = Some ids" "ids \<noteq> []"
       "articles_only (data w) ids" "in_offset input = None"
    using listArticles_run [OF that(1,2,4), of "input\<lparr>in_limit := Some (Num 0)\<rparr>"] that(3,5)
    by (simp add: Let_def or_num_def list_success_def agent_field_def
        template_result_def js_slice_from_start sort_updated_length)
  from a b c d show ?thesis by blast
qed

theorem zero_limit_is_the_default_witness:
  "reliable mock_env \<and>
   index_ids STORAGE_KEYS_contentIndex (data world3) =
     Some [''00000000000000a1'', ''00000000000000a2'', ''00000000000000a3''] \<and>
   pieces_only (data world3) [''00000000000000a1'', ''00000000000000a2'', ''00000000000000a3''] \<and>
   in_tags no_input = None \<and> in_offset no_input = None \<and>
   (\<exists>r w'. listContent mock_env (no_input\<lparr>in_limit := Some (Num 0)\<rparr>) world3 = (Inr r, w') \<and>
      agent_field ''returnedCount'' r = Some (JNum 3)) \<and>
   index_ids STORAGE_KEYS_articleIndex (data world2) = Some [''00000000000000b1''] \<and>
   articles_only (data world2) [''00000000000000b1''] \<and>
   (\<exists>r w'. listArticles mock_env (no_input\<lparr>in_limit := Some (Num 0)\<rparr>) world2 = (Inr r, w') \<and>
      agent_field ''returnedCount'' r = Some (JNum 1))"
proof -
  have n: "in_tags no_input = None" "in_offset no_input = None"
    by (simp_all add: no_input_def)
  have "[''00000000000000a1'', ''00000000000000a2'', ''00000000000000a3''] \<noteq> ([] :: string list)"
    by simp
  with zero_limit_is_the_default [of mock_env no_input world3
      "[''00000000000000a1'', ''00000000000000a2'', ''00000000000000a3'']"]
    reliable_mock world3_index world3_typed n
  have c: "\<exists>r w'. listContent mock_env (no_input\<lparr>in_limit := Some (Num 0)\<rparr>) world3 = (Inr r, w') \<and>
         agent_field ''returnedCount'' r =
           Some (JNum (int (min 20 (length (listed_pieces (data world3)
             [''00000000000000a1'', ''00000000000000a2'', ''00000000000000a3''])))))"
    by blast
  have "[''00000000000000b1''] \<noteq> ([] :: string list)"
    by simp
  with zero_limit_is_the_default [of mock_env no_input world2 "[''00000000000000b1'']"]
    reliable_mock world2_article_index world2_articles_typed n
  have d: "\<exists>r w'. listArticles mock_env (no_input\<lparr>in_limit := Some (Num 0)\<rparr>) world2 = (Inr r, w') \<and>
         agent_field ''returnedCount'' r =
           Some (JNum (int (min 20 (length (listed_articles (data world2) [''00000000000000b1''])))))"
    by blast
  from c d show ?thesis
    using reliable_mock world3_index world3_typed world2_article_index world2_articles_typed n
    by (simp add: world3_listed world2_articles_listed)
qed

lemma getContent_Inr:
  "getContent E i w = (Inr v, w') \<Longrightarrow> v = data w (STORAGE_KEYS_content i) \<and> w' = next_tick w"
  by (simp add: getContent_def storage_get_Inr)

lemma getArticle_Inr:
  "getArticle E i w = (Inr v, w') \<Longrightarrow> v = data w (STORAGE_KEYS_article i) \<and> w' = next_tick w"
  by (simp add: getArticle_def storage_get_Inr)

lemma io_bind_InrE:
  assumes "io_bind m f w = (Inr y, w')"
  obtains x w1 where "m w = (Inr x, w1)" and "f x w1 = (Inr y, w')"
  using assms by (auto dest: io_bind_Inr)

lemma io_return_Inr: "io_return x w = (Inr y, w') \<Longrightarrow> y = x \<and> w' = w"
  by (simp add: io_return_def)

lemma load_all_content_Inr:
  "load_all (getContent E) ids w = (Inr vs, w') \<Longrightarrow>
     vs = List.map_filter (\<lambda>i. data w (STORAGE_KEYS_content i)) ids \<and>
     w' = w\<lparr>tick := tick w + length ids\<rparr>"
proof (induction ids arbitrary: w vs w')
  case Nil
  then show ?case by (simp add: io_return_def map_filter_simps)
next
  case (Cons i ids)
  from Cons.prems obtain found w1 where
    g: "getContent E i w = (Inr found, w1)" and
    r: "io_bind (load_all (getContent E) ids)
          (\<lambda>rest. io_return (case found of None \<Rightarrow> rest | Some v \<Rightarrow> v # rest)) w1 = (Inr vs, w')"
    by (auto dest: io_bind_Inr)
  from r obtain rest w2 where
    l: "load_all (getContent E) ids w1 = (Inr rest, w2)" and
    e: "io_return (case found of None \<Rightarrow> rest | Some v \<Rightarrow> v # rest) w2 = (Inr vs, w')"
    by (auto dest: io_bind_Inr)
  from g have f: "found = data w (STORAGE_KEYS_content i)" and w1: "w1 = next_tick w"
    by (auto dest: getContent_Inr)
  from Cons.IH [OF l] w1 have
    "rest = List.map_filter (\<lambda>i. data w (STORAGE_KEYS_content i)) ids"
    "w2 = w\<lparr>tick := tick w + Suc (length ids)\<rparr>"
    by (simp_all add: next_tick_def)
  with e f show ?case
    by (auto simp: io_return_def map_filter_simps split: option.splits)
qed

lemma getOpenAI_Inr:
  "getOpenAI E config w = (Inr u, w') \<Longrightarrow> w' = w"
  by (auto simp: getOpenAI_def Let_def io_throw_def io_return_def split: if_splits)

lemma ask_result_Inr:
  "ask_result f w = (Inr x, w') \<Longrightarrow> f (tick w) = Inr x \<and> w' = next_tick w"
  by (simp add: ask_result_def)

lemma ask_Inr: "ask f w = (Inr x, w') \<Longrightarrow> x = f (tick w) \<and> w' = next_tick w"
  by (auto simp: ask_def)

lemma io_bind_return: "io_bind (io_return x) f = f x"
  by (rule ext) (simp add: io_bind_def io_return_def)

lemma getOpenAI_credential: "credential E config \<Longrightarrow> getOpenAI E config w = (Inr (), w)"
  by (simp add: getOpenAI_def credential_def io_return_def)

lemma getOpenAI_no_credential:
  "\<not> credential E config \<Longrightarrow>
     getOpenAI E config w = (Inl (Error ''OPENAI_API_KEY not configured''), w)"
  by (simp add: getOpenAI_def credential_def io_throw_def)

lemma index_key_is_record_key:
  "STORAGE_KEYS_article ''index'' = STORAGE_KEYS_articleIndex"
  "STORAGE_KEYS_content ''index'' = STORAGE_KEYS_contentIndex"
  by (simp_all add: STORAGE_KEYS_article_def STORAGE_KEYS_articleIndex_def
      STORAGE_KEYS_content_def STORAGE_KEYS_contentIndex_def)

lemma upd_index_same:
  "d k = Some v \<Longrightarrow> k' \<noteq> k \<Longrightarrow> d(k' \<mapsto> v', k \<mapsto> v) = d(k' \<mapsto> v')"
  by (rule ext) simp

lemma index_ids_other:
  "k' \<noteq> k \<Longrightarrow> index_ids k (d(k' \<mapsto> v)) = index_ids k d"
  by (simp add: index_ids_def)


lemma array_value_ids: "array_value (map Some ids) = VIds ids"
  by (simp add: array_value_def comp_def image_iff)

lemma array_value_snoc: "array_value (map Some ids @ [Some i]) = VIds (ids @ [i])"
  using array_value_ids [of "ids @ [i]"] by simp

lemma elements_array_value: "elements_of (array_value es) = Some es"
proof (cases "None \<in> set es")
  case True
  then show ?thesis by (simp add: array_value_def)
next
  case False
  then have "map (\<lambda>e. Some (the e)) es = es"
    by (induction es) auto
  with False show ?thesis by (simp add: array_value_def comp_def)
qed

lemma elements_Inr: "elements what v w = (Inr es, w') \<Longrightarrow> elements_of v = Some es \<and> w' = w"
  by (auto simp: elements_def io_return_def io_throw_def split: option.splits)

lemma index_elements_ids:
  "index_ids k d = Some ids \<Longrightarrow> index_elements k d = Some (map Some ids)"
  by (auto simp: index_ids_def index_elements_def split: option.splits jsval.splits)

text \<open>A completed \<^verbatim>\<open>setArticle\<close>, of any value.\<close>

lemma setArticle_Inr:
  assumes "setArticle E v w = (Inr u, w')"
  shows "\<exists>es. index_elements STORAGE_KEYS_articleIndex
                ((data w)(STORAGE_KEYS_article (js_str (prop_id v)) \<mapsto> v)) = Some es \<and>
           data w' =
             (if prop_id v \<in> set es then (data w)(STORAGE_KEYS_article (js_str (prop_id v)) \<mapsto> v)
              else (data w)(STORAGE_KEYS_article (js_str (prop_id v)) \<mapsto> v,
                            STORAGE_KEYS_articleIndex \<mapsto> array_value (es @ [prop_id v])))"
proof -
  let ?k = "STORAGE_KEYS_article (js_str (prop_id v))"
  from assms obtain w1 x w2 es w3 where
    s1: "storage_set E ?k v w = (Inr (), w1)" and
    s2: "getArticleIndex E w1 = (Inr x, w2)" and
    s3: "elements ''index.includes is not a function'' x w2 = (Inr es, w3)" and
    s4: "(if prop_id v \<notin> set es then setArticleIndex E (es @ [prop_id v]) else io_return ()) w3 = (Inr u, w')"
    unfolding setArticle_def by (fastforce dest!: io_bind_Inr)
  from s1 have w1: "w1 = next_tick (w\<lparr>data := (data w)(?k \<mapsto> v)\<rparr>)"
    by (rule storage_set_Inr)
  from s2 have x: "x = (case data w1 STORAGE_KEYS_articleIndex of None \<Rightarrow> VIds [] | Some y \<Rightarrow> y)"
    and w2: "w2 = next_tick w1"
    by (auto dest: getArticleIndex_Inr)
  from s3 have xe: "elements_of x = Some es" and w3: "w3 = w2"
    by (auto dest: elements_Inr)
  from x xe w1 have idx: "index_elements STORAGE_KEYS_articleIndex ((data w)(?k \<mapsto> v)) = Some es"
    by (auto simp: index_elements_def data_next_tick split: option.splits)
  show ?thesis
  proof (cases "prop_id v \<in> set es")
    case True
    with s4 have "w' = w3" by (simp add: io_return_def)
    with True idx w1 w2 w3 show ?thesis
      by (auto simp: data_next_tick)
  next
    case False
    with s4 have "w' = next_tick (w3\<lparr>data := (data w3)(STORAGE_KEYS_articleIndex \<mapsto> array_value (es @ [prop_id v]))\<rparr>)"
      by (auto simp: setArticleIndex_def dest: storage_set_Inr)
    with False idx w1 w2 w3 show ?thesis
      by (auto simp: data_next_tick)
  qed
qed

text \<open>
  A completed \<^verbatim>\<open>setArticle\<close> of an article: its id is not \<^verbatim>\<open>index\<close>, it lies under its
  key, the index has its id, and nothing else has changed.
\<close>

lemma setArticle_article_Inr:
  assumes "setArticle E (VArticle a) w = (Inr u, w')"
  shows "a_id a \<noteq> ''index'' \<and>
         data w' (STORAGE_KEYS_article (a_id a)) = Some (VArticle a) \<and>
         (\<forall>k. k \<noteq> STORAGE_KEYS_article (a_id a) \<longrightarrow> k \<noteq> STORAGE_KEYS_articleIndex \<longrightarrow>
              data w' k = data w k) \<and>
         index_gains (Some (a_id a)) (data w) (data w')"
proof -
  from setArticle_Inr [OF assms] obtain es where
    idx: "index_elements STORAGE_KEYS_articleIndex
            ((data w)(STORAGE_KEYS_article (a_id a) \<mapsto> VArticle a)) = Some es" and
    d: "data w' =
          (if Some (a_id a) \<in> set es then (data w)(STORAGE_KEYS_article (a_id a) \<mapsto> VArticle a)
           else (data w)(STORAGE_KEYS_article (a_id a) \<mapsto> VArticle a,
                         STORAGE_KEYS_articleIndex \<mapsto> array_value (es @ [Some (a_id a)])))"
    by (auto simp: js_str_def)
  have ne: "a_id a \<noteq> ''index''"
  proof
    assume "a_id a = ''index''"
    with idx show False
      by (simp add: index_elements_def index_key_is_record_key)
  qed
  then have k: "STORAGE_KEYS_article (a_id a) \<noteq> STORAGE_KEYS_articleIndex"
    by (simp add: key_simps)
  with idx have idx0: "index_elements STORAGE_KEYS_articleIndex (data w) = Some es"
    by (simp add: index_elements_def)
  from d k have "data w' (STORAGE_KEYS_article (a_id a)) = Some (VArticle a)"
    by (simp split: if_splits)
  moreover from d have "\<forall>k. k \<noteq> STORAGE_KEYS_article (a_id a) \<longrightarrow> k \<noteq> STORAGE_KEYS_articleIndex \<longrightarrow>
      data w' k = data w k"
    by (simp split: if_splits)
  moreover from d k idx0 have "index_elements STORAGE_KEYS_articleIndex (data w') =
      Some (if Some (a_id a) \<in> set es then es else es @ [Some (a_id a)])"
    by (simp add: index_elements_def elements_array_value split: if_splits)
  ultimately show ?thesis
    using ne idx0 unfolding index_gains_def by blast
qed


lemma unique_set: "set (unique seen xs) = set xs - set seen"
  by (induction seen xs rule: unique.induct) auto

lemma unique_distinct: "distinct (unique seen xs)"
  by (induction seen xs rule: unique.induct) (auto simp: unique_set)


lemma revise_fixed:
  "a_id (revise a message now ids) = a_id a"
  "a_title (revise a message now ids) = a_title a"
  "a_createdAt (revise a message now ids) = a_createdAt a"
  "a_instructions (revise a message now ids) = a_instructions a"
  by (simp_all add: revise_def)

lemma revise_value_article:
  "revise_value (VArticle a) message now ids = io_return (VArticle (revise a message now ids))"
  by (simp add: revise_value_def)

lemma js_incr_one: "js_incr 1 = 2"
  using js_incr_exact [of 1] by simp

text \<open>A completed \<^verbatim>\<open>updateArticle\<close> of a stored article: every step it took.\<close>

lemma updateArticle_Inr:
  assumes found: "data w (STORAGE_KEYS_article aid) = Some (VArticle a)"
    and aid: "in_articleId input = Some aid"
    and run: "updateArticle E input config w = (Inr r, w')"
  shows "\<exists>message.
     chat_completion E editor_persona
       (update_prompt (VArticle a) (in_instructions input)
          (map source_block (List.map_filter (\<lambda>i. data w (STORAGE_KEYS_content i)) (additional_ids input))))
       (tick w + length (additional_ids input) + 1) = Inr message \<and>
     a_id a \<noteq> ''index'' \<and>
     (let revised = revise a message (toISOString E (tick w + length (additional_ids input) + 2))
                      (additional_ids input)
      in data w' (STORAGE_KEYS_article (a_id a)) = Some (VArticle revised) \<and>
         (\<forall>k. k \<noteq> STORAGE_KEYS_article (a_id a) \<longrightarrow> k \<noteq> STORAGE_KEYS_articleIndex \<longrightarrow>
              data w' k = data w k) \<and>
         r = passthrough_result
               [(''contentType'', JStr ''article''),
                (''content'', JStr (''# '' @ a_title revised @ nl @ nl @ a_content revised)),
                (''metadata'', JObj [(''articleId'', JStr (a_id revised)),
                                     (''title'', JStr (a_title revised)),
                                     (''version'', JNum (a_version revised))])])"
  using run aid found
  unfolding updateArticle_def additional_ids_def
  apply (simp add: Let_def js_str_def)
  apply (erule io_bind_InrE)
  apply (drule getArticle_Inr)
  apply (clarsimp simp: Let_def)
  apply (erule io_bind_InrE)
  apply (drule load_all_content_Inr)
  apply (clarsimp simp: Let_def)
  apply (erule io_bind_InrE, drule getOpenAI_Inr, clarsimp simp: Let_def)
  apply (erule io_bind_InrE, drule ask_result_Inr, clarsimp simp: Let_def)
  apply (erule io_bind_InrE, drule ask_Inr, clarsimp simp: Let_def revise_value_article io_bind_return)
  apply (erule io_bind_InrE, drule setArticle_article_Inr, drule io_return_Inr)
  apply (clarsimp simp: Let_def next_tick_def revise_fixed js_str_def json_str_def data_next_tick)
  done


lemma updateArticle_not_found:
  assumes "data w (STORAGE_KEYS_article (js_str (in_articleId input))) = None"
    and "storage_fault E (tick w) = None"
  shows "updateArticle E input config w = (Inr (passthrough_error ''Article not found''), next_tick w)"
  using assms
  by (simp add: updateArticle_def Let_def getArticle_def storage_get_def io_bind_def io_return_def)


text \<open>
  What \<^verbatim>\<open>updateArticle\<close> does for an id whose key holds an article stored under its
  own id, with a version below \<open>2^53\<close> in magnitude: a call that returns leaves under
  that key the article with the version incremented by exactly 1, \<^verbatim>\<open>updatedAt\<close> set to
  the time read in this call, and the source ids unchanged when no additional ids are
  given (the field absent or empty), else replaced by a duplicate-free list whose
  elements are the old ids and the additional ids; id, title and creation time are kept,
  and the result reports the new version. For an id whose key holds nothing, when the
  storage answers the lookup, the result is the passthrough error
  \<^verbatim>\<open>Article not found\<close> and the store is unchanged.
\<close>

theorem updateArticle_increments_version:
  "(data w (STORAGE_KEYS_article aid) = Some (VArticle a) \<and> a_id a = aid \<and>
    \<bar>a_version a\<bar> < 2 ^ 53 \<and>
    in_articleId input = Some aid \<and> updateArticle E input config w = (Inr r, w') \<longrightarrow>
      (\<exists>a'. data w' (STORAGE_KEYS_article aid) = Some (VArticle a') \<and>
            a_version a' = a_version a + 1 \<and>
            a_updatedAt a' = toISOString E (tick w + length (additional_ids input) + 2) \<and>
            (additional_ids input = [] \<longrightarrow> a_sourceContentIds a' = a_sourceContentIds a) \<and>
            (additional_ids input \<noteq> [] \<longrightarrow>
               set (a_sourceContentIds a') = set (a_sourceContentIds a) \<union> set (additional_ids input) \<and>
               distinct (a_sourceContentIds a')) \<and>
            a_id a' = aid \<and> a_title a' = a_title a \<and> a_createdAt a' = a_createdAt a \<and>
            user_field ''metadata'' r =
              Some (JObj [(''articleId'', JStr aid), (''title'', JStr (a_title a)),
                          (''version'', JNum (a_version a + 1))]))) \<and>
   (data w (STORAGE_KEYS_article (js_str (in_articleId input))) = None \<and>
    storage_fault E (tick w) = None \<longrightarrow>
      (\<exists>w1. updateArticle E input config w =
               (Inr \<lparr>responseMode = Passthrough, agentData = None,
                      userContent = Some [(''contentType'', JStr ''error''),
                                          (''content'', JStr ''Article not found'')]\<rparr>, w1) \<and>
            data w1 = data w))"
proof (intro conjI impI)
  assume h: "data w (STORAGE_KEYS_article aid) = Some (VArticle a) \<and> a_id a = aid \<and>
    \<bar>a_version a\<bar> < 2 ^ 53 \<and>
    in_articleId input = Some aid \<and> updateArticle E input config w = (Inr r, w')"
  then have found: "data w (STORAGE_KEYS_article aid) = Some (VArticle a)" and id: "a_id a = aid"
    and small: "\<bar>a_version a\<bar> < 2 ^ 53"
    and aid: "in_articleId input = Some aid" and run: "updateArticle E input config w = (Inr r, w')"
    by simp_all
  from small have incr: "js_incr (a_version a) = a_version a + 1"
    by (intro js_incr_exact) simp
  from updateArticle_Inr [OF found aid run] obtain message where
    ne: "a_id a \<noteq> ''index''" and
    d: "data w' (STORAGE_KEYS_article (a_id a)) =
           Some (VArticle (revise a message (toISOString E (tick w + length (additional_ids input) + 2))
                      (additional_ids input)))" and
    r: "r = passthrough_result
               [(''contentType'', JStr ''article''),
                (''content'', JStr (''# '' @ a_title (revise a message (toISOString E (tick w + length (additional_ids input) + 2))
                      (additional_ids input)) @ nl @ nl @ a_content (revise a message (toISOString E (tick w + length (additional_ids input) + 2))
                      (additional_ids input)))),
                (''metadata'', JObj [(''articleId'', JStr (a_id (revise a message (toISOString E (tick w + length (additional_ids input) + 2))
                      (additional_ids input)))),
                                     (''title'', JStr (a_title (revise a message (toISOString E (tick w + length (additional_ids input) + 2))
                      (additional_ids input)))),
                                     (''version'', JNum (a_version (revise a message (toISOString E (tick w + length (additional_ids input) + 2))
                      (additional_ids input))))])]"
    by (auto simp: Let_def)
  let ?a' = "revise a message (toISOString E (tick w + length (additional_ids input) + 2))
                      (additional_ids input)"
  from d id have "data w' (STORAGE_KEYS_article aid) = Some (VArticle ?a')"
    by simp
  moreover have "a_version ?a' = a_version a + 1"
    "a_updatedAt ?a' = toISOString E (tick w + length (additional_ids input) + 2)"
    "additional_ids input = [] \<longrightarrow> a_sourceContentIds ?a' = a_sourceContentIds a"
    "additional_ids input \<noteq> [] \<longrightarrow>
       set (a_sourceContentIds ?a') = set (a_sourceContentIds a) \<union> set (additional_ids input) \<and>
       distinct (a_sourceContentIds ?a')"
    by (simp_all add: revise_def unique_set unique_distinct incr)
  moreover have "a_id ?a' = aid" "a_title ?a' = a_title a" "a_createdAt ?a' = a_createdAt a"
    using id by (simp_all add: revise_fixed)
  moreover from r id have "user_field ''metadata'' r =
              Some (JObj [(''articleId'', JStr aid), (''title'', JStr (a_title a)),
                          (''version'', JNum (a_version a + 1))])"
    by (simp add: user_field_def passthrough_result_def revise_fixed) (simp add: revise_def incr)
  ultimately show "\<exists>a'. data w' (STORAGE_KEYS_article aid) = Some (VArticle a') \<and>
            a_version a' = a_version a + 1 \<and>
            a_updatedAt a' = toISOString E (tick w + length (additional_ids input) + 2) \<and>
            (additional_ids input = [] \<longrightarrow> a_sourceContentIds a' = a_sourceContentIds a) \<and>
            (additional_ids input \<noteq> [] \<longrightarrow>
               set (a_sourceContentIds a') = set (a_sourceContentIds a) \<union> set (additional_ids input) \<and>
               distinct (a_sourceContentIds a')) \<and>
            a_id a' = aid \<and> a_title a' = a_title a \<and> a_createdAt a' = a_createdAt a \<and>
            user_field ''metadata'' r =
              Some (JObj [(''articleId'', JStr aid), (''title'', JStr (a_title a)),
                          (''version'', JNum (a_version a + 1))])"
    by blast
next
  assume "data w (STORAGE_KEYS_article (js_str (in_articleId input))) = None \<and>
    storage_fault E (tick w) = None"
  then show "\<exists>w1. updateArticle E input config w =
               (Inr \<lparr>responseMode = Passthrough, agentData = None,
                      userContent = Some [(''contentType'', JStr ''error''),
                                          (''content'', JStr ''Article not found'')]\<rparr>, w1) \<and>
            data w1 = data w"
    using updateArticle_not_found [of w input E config]
    by (simp add: passthrough_error_def passthrough_result_def data_next_tick)
qed

lemma world2_article: "data world2 (STORAGE_KEYS_article ''00000000000000b1'') = Some (VArticle article1)"
  by (simp add: world2_def key_simps)

lemma mock_credential: "getOpenAI mock_env mock_config w = (Inr (), w)"
  by (simp add: getOpenAI_def mock_config_def or_opt_def truthy_def io_return_def)


lemma updateArticle_world2:
  "\<exists>r w'. updateArticle mock_env
      (no_input\<lparr>in_articleId := Some ''00000000000000b1'', in_instructions := Some ''shorter'',
                 in_additionalContentIds := Some [''00000000000000a1'', ''00000000000000ff'']\<rparr>)
      mock_config world2 = (Inr r, w')"
  by (simp add: updateArticle_def no_input_def js_str_def run_defs getArticle_def getContent_def
      storage_mock mock_credential mock_env_fields world2_def key_simps setArticle_def
      getArticleIndex_def setArticleIndex_def elements_def article1_def revise_def
      revise_value_def)


lemma mock_clock:
  "toISOString mock_env (Suc (Suc 0)) = ''2025-01-01T00:00:02.000Z''"
  "toISOString mock_env (Suc (Suc (Suc 0))) = ''2025-01-01T00:00:03.000Z''"
  "toISOString mock_env (Suc (Suc (Suc (Suc 0)))) = ''2025-01-01T00:00:04.000Z''"
  "randomBytes mock_env (Suc (Suc 0)) = ''0000000000000002''"
  by (simp_all add: mock_env_def)

text \<open>
  C4, at the failing input: no article has the id \<^verbatim>\<open>index\<close>, so the passthrough
  error with no state change is what a call with that \<^verbatim>\<open>articleId\<close> should give. The key
  of that id is the key \<^verbatim>\<open>article:index\<close> of the article index, so \<^verbatim>\<open>updateArticle\<close>
  finds the index, revises it as if it were an article and answers with an article
  result (title and id \<^verbatim>\<open>undefined\<close>, version \<^verbatim>\<open>NaN\<close>); the store has changed: the
  edited index lies under the key \<^verbatim>\<open>article:undefined\<close>, which held nothing, and the
  article index has gained the element \<^verbatim>\<open>undefined\<close>.
\<close>

theorem updateArticle_index_id_changes_store:
  "stored_article (data world2) ''index'' = None \<and>
   data world2 (STORAGE_KEYS_article ''undefined'') = None \<and>
   updateArticle mock_env (no_input\<lparr>in_articleId := Some ''index'', in_instructions := Some ''shorter''\<rparr>)
       mock_config world2 =
     (Inr \<lparr>responseMode = Passthrough, agentData = None,
           userContent = Some
             [(''contentType'', JStr ''article''),
              (''content'', JStr (''# undefined'' @ nl @ nl @ ''A short summary.'')),
              (''metadata'', JObj [(''articleId'', JUndefined), (''title'', JUndefined),
                                   (''version'', JNaN)])]\<rparr>,
      world2\<lparr>data := (data world2)
                (STORAGE_KEYS_article ''undefined'' \<mapsto>
                   VEdited (VIds [''00000000000000b1'']) (Some ''A short summary.'')
                     ''2025-01-01T00:00:02.000Z'',
                 STORAGE_KEYS_articleIndex \<mapsto> VArray [Some ''00000000000000b1'', None]),
              tick := 6\<rparr>)"
proof -
  have a: "stored_article (data world2) ''index'' = None"
    by (simp add: stored_article_def world2_def index_key_is_record_key key_simps)
  have b: "data world2 (STORAGE_KEYS_article ''undefined'') = None"
    by (simp add: world2_def key_simps STORAGE_KEYS_article_def STORAGE_KEYS_articleIndex_def
        STORAGE_KEYS_content_def STORAGE_KEYS_contentIndex_def)
  have c: "updateArticle mock_env (no_input\<lparr>in_articleId := Some ''index'', in_instructions := Some ''shorter''\<rparr>)
       mock_config world2 =
     (Inr \<lparr>responseMode = Passthrough, agentData = None,
           userContent = Some
             [(''contentType'', JStr ''article''),
              (''content'', JStr (''# undefined'' @ nl @ nl @ ''A short summary.'')),
              (''metadata'', JObj [(''articleId'', JUndefined), (''title'', JUndefined),
                                   (''version'', JNaN)])]\<rparr>,
      world2\<lparr>data := (data world2)
                (STORAGE_KEYS_article ''undefined'' \<mapsto>
                   VEdited (VIds [''00000000000000b1'']) (Some ''A short summary.'')
                     ''2025-01-01T00:00:02.000Z'',
                 STORAGE_KEYS_articleIndex \<mapsto> VArray [Some ''00000000000000b1'', None]),
              tick := 6\<rparr>)"
    by (simp add: updateArticle_def no_input_def js_str_def json_str_def run_defs getArticle_def
        storage_mock mock_credential mock_env_fields world2_def index_key_is_record_key
        setArticle_def getArticleIndex_def setArticleIndex_def elements_def array_value_def
        revise_value_def update_prompt_def or_opt_def truthy_def passthrough_result_def
        STORAGE_KEYS_article_def STORAGE_KEYS_articleIndex_def
        STORAGE_KEYS_content_def STORAGE_KEYS_contentIndex_def mock_clock)
  from a b c show ?thesis by (intro conjI)
qed

theorem updateArticle_increments_version_witness:
  "data world2 (STORAGE_KEYS_article ''00000000000000b1'') = Some (VArticle article1) \<and>
   a_id article1 = ''00000000000000b1'' \<and>
   \<bar>a_version article1\<bar> < 2 ^ 53 \<and>
   (\<exists>r w' a'.
      updateArticle mock_env
        (no_input\<lparr>in_articleId := Some ''00000000000000b1'', in_instructions := Some ''shorter'',
                   in_additionalContentIds := Some [''00000000000000a1'', ''00000000000000ff'']\<rparr>)
        mock_config world2 = (Inr r, w') \<and>
      data w' (STORAGE_KEYS_article ''00000000000000b1'') = Some (VArticle a') \<and>
      a_version a' = 2 \<and>
      a_updatedAt a' = ''2025-01-01T00:00:04.000Z'' \<and>
      set (a_sourceContentIds a') = {''00000000000000a1'', ''00000000000000ff''} \<and>
      distinct (a_sourceContentIds a')) \<and>
   data world2 (STORAGE_KEYS_article (js_str (in_articleId no_input))) = None \<and>
   storage_fault mock_env (tick world2) = None \<and>
   (\<exists>w1. updateArticle mock_env no_input None world2 =
           (Inr \<lparr>responseMode = Passthrough, agentData = None,
                  userContent = Some [(''contentType'', JStr ''error''),
                                      (''content'', JStr ''Article not found'')]\<rparr>, w1) \<and>
         data w1 = data world2)"
proof -
  let ?input = "no_input\<lparr>in_articleId := Some ''00000000000000b1'', in_instructions := Some ''shorter'',
                   in_additionalContentIds := Some [''00000000000000a1'', ''00000000000000ff'']\<rparr>"
  have i: "a_id article1 = ''00000000000000b1''" "in_articleId ?input = Some ''00000000000000b1''"
    "additional_ids ?input = [''00000000000000a1'', ''00000000000000ff'']"
    "a_version article1 = 1" "a_sourceContentIds article1 = [''00000000000000a1'']"
    "tick world2 = 0"
    by (simp_all add: article1_def no_input_def additional_ids_def world2_def)
  have t: "toISOString mock_env 4 = ''2025-01-01T00:00:04.000Z''"
    by (simp add: mock_env_def)
  have v: "\<bar>a_version article1\<bar> < 2 ^ 53"
    by (simp add: article1_def)
  obtain r w' where run: "updateArticle mock_env ?input mock_config world2 = (Inr r, w')"
    using updateArticle_world2 by blast
  have n: "data world2 (STORAGE_KEYS_article (js_str (in_articleId no_input))) = None"
    "storage_fault mock_env (tick world2) = None"
    by (simp_all add: world2_def no_input_def js_str_def mock_env_fields
        STORAGE_KEYS_article_def STORAGE_KEYS_content_def STORAGE_KEYS_contentIndex_def
        STORAGE_KEYS_articleIndex_def)
  have "\<exists>a'. data w' (STORAGE_KEYS_article ''00000000000000b1'') = Some (VArticle a') \<and>
            a_version a' = a_version article1 + 1 \<and>
            a_updatedAt a' = toISOString mock_env (tick world2 + length (additional_ids ?input) + 2) \<and>
            (additional_ids ?input = [] \<longrightarrow> a_sourceContentIds a' = a_sourceContentIds article1) \<and>
            (additional_ids ?input \<noteq> [] \<longrightarrow>
               set (a_sourceContentIds a') = set (a_sourceContentIds article1) \<union> set (additional_ids ?input) \<and>
               distinct (a_sourceContentIds a')) \<and>
            a_id a' = ''00000000000000b1'' \<and> a_title a' = a_title article1 \<and>
            a_createdAt a' = a_createdAt article1 \<and>
            user_field ''metadata'' r =
              Some (JObj [(''articleId'', JStr ''00000000000000b1''), (''title'', JStr (a_title article1)),
                          (''version'', JNum (a_version article1 + 1))])"
    by (rule mp [OF conjunct1 [OF updateArticle_increments_version
          [of world2 "''00000000000000b1''" article1 ?input mock_env mock_config r w']]])
       (intro conjI world2_article i(1) i(2) run v)
  then obtain a' where
    a1: "data w' (STORAGE_KEYS_article ''00000000000000b1'') = Some (VArticle a')" and
    a2: "a_version a' = a_version article1 + 1" and
    a3: "a_updatedAt a' = toISOString mock_env (tick world2 + length (additional_ids ?input) + 2)" and
    a4: "additional_ids ?input \<noteq> [] \<longrightarrow>
               set (a_sourceContentIds a') = set (a_sourceContentIds article1) \<union> set (additional_ids ?input) \<and>
               distinct (a_sourceContentIds a')"
    by blast
  from a2 have b2: "a_version a' = 2" by (simp add: i(4))
  have "tick world2 + length (additional_ids ?input) + 2 = 4"
    unfolding i(3) i(6) by simp
  with a3 have b3: "a_updatedAt a' = ''2025-01-01T00:00:04.000Z''"
    by (simp only: t)
  from a4 have b4: "set (a_sourceContentIds a') = {''00000000000000a1'', ''00000000000000ff''}"
    and b5: "distinct (a_sourceContentIds a')"
    unfolding i(3) i(5) by auto
  have c: "\<exists>w1. updateArticle mock_env no_input None world2 =
           (Inr \<lparr>responseMode = Passthrough, agentData = None,
                  userContent = Some [(''contentType'', JStr ''error''),
                                      (''content'', JStr ''Article not found'')]\<rparr>, w1) \<and>
         data w1 = data world2"
    by (rule mp [OF conjunct2 [OF updateArticle_increments_version
          [of world2 "''00000000000000b1''" article1 no_input mock_env None r w']]])
       (intro conjI n)
  from run a1 b2 b3 b4 b5 have d: "\<exists>r w' a'.
      updateArticle mock_env ?input mock_config world2 = (Inr r, w') \<and>
      data w' (STORAGE_KEYS_article ''00000000000000b1'') = Some (VArticle a') \<and>
      a_version a' = 2 \<and>
      a_updatedAt a' = ''2025-01-01T00:00:04.000Z'' \<and>
      set (a_sourceContentIds a') = {''00000000000000a1'', ''00000000000000ff''} \<and>
      distinct (a_sourceContentIds a')"
    by blast
  show ?thesis
    by (intro conjI world2_article i(1) v d n c)
qed


lemma setArticle_reliable:
  assumes "reliable E" and "index_ids STORAGE_KEYS_articleIndex (data w) = Some ids"
    and "a_id a \<noteq> ''index''"
  shows "\<exists>w'. setArticle E (VArticle a) w = (Inr (), w') \<and>
           data w' = (data w)(STORAGE_KEYS_article (a_id a) \<mapsto> VArticle a,
                              STORAGE_KEYS_articleIndex \<mapsto> VIds (with_id (a_id a) ids))"
proof -
  let ?w1 = "next_tick (w\<lparr>data := (data w)(STORAGE_KEYS_article (a_id a) \<mapsto> VArticle a)\<rparr>)"
  have s1: "\<And>f. io_bind (storage_set E (STORAGE_KEYS_article (a_id a)) (VArticle a)) f w = f () ?w1"
    using assms(1) by (simp add: io_bind_def storage_set_reliable)
  have "index_ids STORAGE_KEYS_articleIndex (data ?w1) = Some ids"
    using assms(2,3) by (simp add: data_next_tick index_ids_other key_simps)
  then have s2: "\<And>f. io_bind (getArticleIndex E) f ?w1 = f (VIds ids) (next_tick ?w1)"
    using assms(1) by (simp add: io_bind_def getArticleIndex_reliable)
  have s3: "\<And>f. io_bind (elements ''index.includes is not a function'' (VIds ids)) f (next_tick ?w1)
      = f (map Some ids) (next_tick ?w1)"
    by (simp add: io_bind_def elements_def io_return_def)
  have m: "Some (a_id a) \<in> Some ` set ids \<longleftrightarrow> a_id a \<in> set ids"
    by auto
  show ?thesis
  proof (cases "a_id a \<in> set ids")
    case True
    then have "data w STORAGE_KEYS_articleIndex = Some (VIds ids)"
      using assms(2) by (auto simp: index_ids_def split: option.splits jsval.splits)
    with True assms(3) show ?thesis
      unfolding setArticle_def
      by (simp add: js_str_def s1 s2 s3 m io_return_def
          data_next_tick with_id_def upd_index_same key_simps)
  next
    case False
    then show ?thesis
      unfolding setArticle_def
      by (simp add: js_str_def s1 s2 s3 m setArticleIndex_def array_value_snoc
          storage_set_reliable [OF assms(1)] data_next_tick with_id_def)
  qed
qed




text \<open>
  C9: when the model answers the revision without content (the content missing or
  empty), on a storage that answers, with a credential, a stored article whose version
  is below \<open>2^53\<close> in magnitude and an article index that is an array of ids,
  \<^verbatim>\<open>updateArticle\<close> still returns the article result, and the article it stores has
  the content it had, the version incremented by 1 and \<^verbatim>\<open>updatedAt\<close> set to the time
  read in this call.
\<close>

theorem updateArticle_empty_response:
  assumes "reliable E" and "credential E config"
    and "data w (STORAGE_KEYS_article aid) = Some (VArticle a)" and "a_id a = aid"
    and "in_articleId input = Some aid"
    and "index_ids STORAGE_KEYS_articleIndex (data w) = Some ids"
    and "chat_completion E editor_persona
           (update_prompt (VArticle a) (in_instructions input)
              (map source_block (List.map_filter (\<lambda>i. data w (STORAGE_KEYS_content i)) (additional_ids input))))
           (tick w + length (additional_ids input) + 1) = Inr message"
    and "\<not> truthy message"
    and "\<bar>a_version a\<bar> < 2 ^ 53"
  shows "\<exists>r w' a'. updateArticle E input config w = (Inr r, w') \<and>
           user_field ''contentType'' r = Some (JStr ''article'') \<and>
           user_field ''metadata'' r =
              Some (JObj [(''articleId'', JStr aid), (''title'', JStr (a_title a)),
                          (''version'', JNum (a_version a + 1))]) \<and>
           data w' (STORAGE_KEYS_article aid) = Some (VArticle a') \<and>
           a_content a' = a_content a \<and> a_version a' = a_version a + 1 \<and>
           a_updatedAt a' = toISOString E (tick w + length (additional_ids input) + 2)"
proof -
  let ?add = "additional_ids input"
  let ?loaded = "List.map_filter (\<lambda>i. data w (STORAGE_KEYS_content i)) ?add"
  let ?now = "toISOString E (Suc (Suc (tick w + length ?add)))"
  let ?a' = "revise a message ?now ?add"
  have ne: "a_id a \<noteq> ''index''"
    using assms(3,4,6) by (auto simp: index_ids_def index_key_is_record_key)
  have s1: "\<And>f. io_bind (getArticle E aid) f w = f (Some (VArticle a)) (next_tick w)"
    using assms(1,3) by (simp add: io_bind_def getArticle_reliable)
  have s2: "\<And>f. io_bind (load_all (getContent E) ?add) f (next_tick w) =
      f ?loaded (w\<lparr>tick := Suc (tick w + length ?add)\<rparr>)"
    using load_all_content_reliable [OF assms(1), of ?add "next_tick w"]
    by (simp add: io_bind_def next_tick_def)
  have s3: "\<And>f w0. io_bind (getOpenAI E config) f w0 = f () w0"
    using assms(2) by (simp add: io_bind_def getOpenAI_credential)
  have s4: "\<And>f. io_bind (ask_result (chat_completion E editor_persona
                (update_prompt (VArticle a) (in_instructions input) (map source_block ?loaded)))) f
              (w\<lparr>tick := Suc (tick w + length ?add)\<rparr>) = f message (w\<lparr>tick := Suc (Suc (tick w + length ?add))\<rparr>)"
    using assms(7) by (simp add: io_bind_def ask_result_def next_tick_def)
  have s5: "\<And>f. io_bind (ask (toISOString E)) f (w\<lparr>tick := Suc (Suc (tick w + length ?add))\<rparr>) =
      f ?now (w\<lparr>tick := Suc (Suc (Suc (tick w + length ?add)))\<rparr>)"
    by (simp add: io_bind_def ask_def next_tick_def)
  have "a_id ?a' \<noteq> ''index''"
    using ne by (simp add: revise_fixed)
  from setArticle_reliable [OF assms(1) _ this, of "w\<lparr>tick := Suc (Suc (Suc (tick w + length ?add)))\<rparr>" ids] assms(6)
  obtain w6 where
    s6: "setArticle E (VArticle ?a') (w\<lparr>tick := Suc (Suc (Suc (tick w + length ?add)))\<rparr>) = (Inr (), w6)" and
    d6: "data w6 = (data w)(STORAGE_KEYS_article (a_id a) \<mapsto> VArticle ?a',
                            STORAGE_KEYS_articleIndex \<mapsto> VIds (with_id (a_id a) ids))"
    by (auto simp: revise_fixed)
  have s5': "\<And>f w0. io_bind (revise_value (VArticle a) message ?now ?add) f w0 = f (VArticle ?a') w0"
    by (simp add: revise_value_article io_bind_return)
  from s6 have s6': "\<And>f. io_bind (setArticle E (VArticle ?a')) f
      (w\<lparr>tick := Suc (Suc (Suc (tick w + length ?add)))\<rparr>) = f () w6"
    by (simp add: io_bind_def)
  have run: "updateArticle E input config w =
      (Inr (passthrough_result
             [(''contentType'', JStr ''article''),
              (''content'', JStr (''# '' @ a_title ?a' @ nl @ nl @ a_content ?a')),
              (''metadata'', JObj [(''articleId'', JStr (a_id ?a')), (''title'', JStr (a_title ?a')),
                                   (''version'', JNum (a_version ?a'))])]), w6)"
    unfolding updateArticle_def additional_ids_def [symmetric]
    by (simp add: Let_def js_str_def json_str_def assms(5) s1 s2 s3 s4 s5 s5' s6' io_return_def)
  have c: "a_content ?a' = a_content a"
    using assms(8) by (auto simp: revise_def or_str_def truthy_def split: option.splits)
  have v: "a_version ?a' = a_version a + 1" "a_updatedAt ?a' = ?now"
    using assms(9) by (simp_all add: revise_def js_incr_exact)
  from d6 ne assms(4) have "data w6 (STORAGE_KEYS_article aid) = Some (VArticle ?a')"
    by (simp add: key_simps)
  with run c v assms(4) show ?thesis
    by (simp add: user_field_def passthrough_result_def revise_fixed)
qed

lemma reliable_silent: "reliable silent_env"
  by (simp add: reliable_def silent_env_def mock_env_def)

lemma credential_mock_config: "credential E mock_config"
  by (simp add: credential_def mock_config_def or_opt_def truthy_def)

theorem updateArticle_empty_response_witness:
  "reliable silent_env \<and> credential silent_env mock_config \<and>
   data world2 (STORAGE_KEYS_article ''00000000000000b1'') = Some (VArticle article1) \<and>
   a_id article1 = ''00000000000000b1'' \<and>
   index_ids STORAGE_KEYS_articleIndex (data world2) = Some [''00000000000000b1''] \<and>
   chat_completion silent_env editor_persona
     (update_prompt (VArticle article1) (Some ''shorter'') []) 1 = Inr None \<and>
   \<not> truthy None \<and> \<bar>a_version article1\<bar> < 2 ^ 53 \<and>
   (\<exists>r w' a'.
      updateArticle silent_env
        (no_input\<lparr>in_articleId := Some ''00000000000000b1'', in_instructions := Some ''shorter''\<rparr>)
        mock_config world2 = (Inr r, w') \<and>
      user_field ''contentType'' r = Some (JStr ''article'') \<and>
      data w' (STORAGE_KEYS_article ''00000000000000b1'') = Some (VArticle a') \<and>
      a_content a' = ''Draft text.'' \<and> a_version a' = 2 \<and>
      a_updatedAt a' = ''2025-01-01T00:00:02.000Z'')"
proof -
  let ?input = "no_input\<lparr>in_articleId := Some ''00000000000000b1'', in_instructions := Some ''shorter''\<rparr>"
  have i: "a_id article1 = ''00000000000000b1''" "in_articleId ?input = Some ''00000000000000b1''"
    by (simp_all add: article1_def no_input_def)
  have j: "additional_ids ?input = []" "in_instructions ?input = Some ''shorter''" "tick world2 = 0"
    "a_content article1 = ''Draft text.''" "a_version article1 = 1"
    by (simp_all add: article1_def no_input_def additional_ids_def world2_def)
  have c: "chat_completion silent_env editor_persona (update_prompt (VArticle article1) (Some ''shorter'') []) 1 = Inr None"
    by (simp add: silent_env_def)
  have c': "chat_completion silent_env editor_persona
           (update_prompt (VArticle article1) (in_instructions ?input)
              (map source_block (List.map_filter (\<lambda>i. data world2 (STORAGE_KEYS_content i)) (additional_ids ?input))))
           (tick world2 + length (additional_ids ?input) + 1) = Inr None"
    unfolding j by (simp add: silent_env_def)
  have f: "\<not> truthy None"
    by (simp add: truthy_def)
  have v: "\<bar>a_version article1\<bar> < 2 ^ 53"
    by (simp add: article1_def)
  have t: "toISOString silent_env (tick world2 + length (additional_ids ?input) + 2) = ''2025-01-01T00:00:02.000Z''"
    unfolding j by (simp add: silent_env_def mock_env_def)
  from updateArticle_empty_response [OF reliable_silent credential_mock_config world2_article i
      world2_article_index c' f v]
  obtain r w' a' where
    "updateArticle silent_env ?input mock_config world2 = (Inr r, w')"
    "user_field ''contentType'' r = Some (JStr ''article'')"
    "data w' (STORAGE_KEYS_article ''00000000000000b1'') = Some (VArticle a')"
    "a_content a' = a_content article1" "a_version a' = a_version article1 + 1"
    "a_updatedAt a' = toISOString silent_env (tick world2 + length (additional_ids ?input) + 2)"
    by blast
  then have "\<exists>r w' a'.
      updateArticle silent_env ?input mock_config world2 = (Inr r, w') \<and>
      user_field ''contentType'' r = Some (JStr ''article'') \<and>
      data w' (STORAGE_KEYS_article ''00000000000000b1'') = Some (VArticle a') \<and>
      a_content a' = ''Draft text.'' \<and> a_version a' = 2 \<and>
      a_updatedAt a' = ''2025-01-01T00:00:02.000Z''"
    unfolding t j(4) j(5) by auto
  then show ?thesis
    by (intro conjI reliable_silent credential_mock_config world2_article i(1) world2_article_index c f v)
qed

lemma resolved_empty: "resolved d ids = [] \<longleftrightarrow> (\<forall>i\<in>set ids. d (STORAGE_KEYS_content i) = None)"
  by (induction ids) (auto simp: resolved_def map_filter_simps split: option.splits)

lemma generateId_Inr: "generateId E w = (Inr i, w') \<Longrightarrow> i = randomBytes E (tick w) \<and> w' = next_tick w"
  by (auto simp: generateId_def dest: ask_Inr)


text \<open>A completed \<^verbatim>\<open>createArticle\<close>: every step it took.\<close>

lemma createArticle_Inr:
  assumes ids: "in_contentIds input = Some contentIds"
    and run: "createArticle E input config w = (Inr r, w')"
  shows "(resolved (data w) contentIds = [] \<and>
          r = passthrough_error ''No valid content pieces found'' \<and> data w' = data w) \<or>
         (resolved (data w) contentIds \<noteq> [] \<and>
          (\<exists>message.
             chat_completion E writer_persona
               (create_prompt (in_instructions input) (map source_block (resolved (data w) contentIds))
                  (in_title input))
               (tick w + length contentIds) = Inr message \<and>
             (let article = created_article E input contentIds message (Suc (tick w + length contentIds))
              in a_id article \<noteq> ''index'' \<and>
                 data w' (STORAGE_KEYS_article (a_id article)) = Some (VArticle article) \<and>
                 (\<forall>k. k \<noteq> STORAGE_KEYS_article (a_id article) \<longrightarrow> k \<noteq> STORAGE_KEYS_articleIndex \<longrightarrow>
                      data w' k = data w k) \<and>
                 index_gains (Some (a_id article)) (data w) (data w') \<and>
                 r = passthrough_result
                       [(''contentType'', JStr ''article''),
                        (''content'', JStr (''# '' @ a_title article @ nl @ nl @ a_content article)),
                        (''metadata'', JObj [(''articleId'', JStr (a_id article)),
                                             (''title'', JStr (a_title article))])])))"
proof (cases "resolved (data w) contentIds = []")
  case True
  with run ids show ?thesis
    unfolding createArticle_def
    apply (simp add: Let_def io_bind_return)
    apply (erule io_bind_InrE, drule load_all_content_Inr)
    apply (clarsimp simp: resolved_def io_return_def)
    done
next
  case False
  with run ids show ?thesis
    unfolding createArticle_def
    apply (simp add: Let_def io_bind_return)
    apply (erule io_bind_InrE, drule load_all_content_Inr)
    apply (clarsimp simp: resolved_def [symmetric] Let_def)
    apply (erule io_bind_InrE, drule getOpenAI_Inr, clarsimp simp: Let_def)
    apply (erule io_bind_InrE, drule ask_result_Inr, clarsimp simp: Let_def)
    apply (erule io_bind_InrE, drule generateId_Inr, clarsimp simp: Let_def)
    apply (erule io_bind_InrE, drule ask_Inr, clarsimp simp: Let_def)
    apply (erule io_bind_InrE, drule ask_Inr, clarsimp simp: Let_def)
    apply (erule io_bind_InrE, drule setArticle_article_Inr, drule io_return_Inr)
    apply (clarsimp simp: Let_def next_tick_def created_article_def data_next_tick)
    done
qed


lemma resolved_reliable:
  "reliable E \<Longrightarrow> (\<And>f. io_bind (load_all (getContent E) ids) f w =
      f (resolved (data w) ids) (w\<lparr>tick := tick w + length ids\<rparr>))"
  by (simp add: io_bind_def load_all_content_reliable resolved_def)

lemma createArticle_none_resolve:
  assumes "reliable E" and "in_contentIds input = Some contentIds"
    and "resolved (data w) contentIds = []"
  shows "createArticle E input config w =
     (Inr (passthrough_error ''No valid content pieces found''), w\<lparr>tick := tick w + length contentIds\<rparr>)"
  unfolding createArticle_def
  by (simp add: Let_def assms(2,3) io_bind_return resolved_reliable [OF assms(1)] io_return_def)

lemma createArticle_no_credential:
  assumes "reliable E" and "in_contentIds input = Some contentIds"
    and "resolved (data w) contentIds \<noteq> []" and "\<not> credential E config"
  shows "createArticle E input config w =
     (Inl (Error ''OPENAI_API_KEY not configured''), w\<lparr>tick := tick w + length contentIds\<rparr>)"
  unfolding createArticle_def
  by (simp add: Let_def assms(2,3) io_bind_return resolved_reliable [OF assms(1)]
      io_bind_fail [OF getOpenAI_no_credential [OF assms(4)]])

lemma article_result_not_error:
  "user_field ''contentType'' (passthrough_error msg) \<noteq> Some (JStr ''article'')"
  by (simp add: user_field_def passthrough_error_def passthrough_result_def)


text \<open>
  C8: when \<^verbatim>\<open>createArticle\<close> returns the article result, the article it stored under
  the returned id has as \<^verbatim>\<open>sourceContentIds\<close> the input list \<^verbatim>\<open>contentIds\<close> itself, with
  the ids that did not resolve and with its duplicates.
\<close>

theorem createArticle_stores_input_ids:
  assumes "in_contentIds input = Some contentIds"
    and "createArticle E input config w = (Inr r, w')"
    and "user_field ''contentType'' r = Some (JStr ''article'')"
  shows "\<exists>a. user_field ''metadata'' r =
               Some (JObj [(''articleId'', JStr (a_id a)), (''title'', JStr (a_title a))]) \<and>
             data w' (STORAGE_KEYS_article (a_id a)) = Some (VArticle a) \<and>
             a_sourceContentIds a = contentIds"
proof -
  from createArticle_Inr [OF assms(1,2)] assms(3) article_result_not_error
  obtain message where
    d: "data w' (STORAGE_KEYS_article (a_id (created_article E input contentIds message (Suc (tick w + length contentIds))))) =
          Some (VArticle (created_article E input contentIds message (Suc (tick w + length contentIds))))" and
    r: "r = passthrough_result
                       [(''contentType'', JStr ''article''),
                        (''content'', JStr (''# '' @ a_title (created_article E input contentIds message (Suc (tick w + length contentIds))) @ nl @ nl
                           @ a_content (created_article E input contentIds message (Suc (tick w + length contentIds))))),
                        (''metadata'', JObj [(''articleId'', JStr (a_id (created_article E input contentIds message (Suc (tick w + length contentIds))))),
                                             (''title'', JStr (a_title (created_article E input contentIds message (Suc (tick w + length contentIds)))))])]"
    by (auto simp: Let_def)
  let ?a = "created_article E input contentIds message (Suc (tick w + length contentIds))"
  from r have "user_field ''metadata'' r =
               Some (JObj [(''articleId'', JStr (a_id ?a)), (''title'', JStr (a_title ?a))])"
    by (simp add: user_field_def passthrough_result_def)
  moreover note d
  moreover have "a_sourceContentIds ?a = contentIds"
    by (simp add: created_article_def)
  ultimately show ?thesis by blast
qed


lemma mock_id_not_index:
  "randomBytes mock_env t \<noteq> ''index''" "''index'' \<noteq> randomBytes mock_env t"
  by (simp_all add: mock_env_def)


lemma createArticle_world1:
  "\<exists>r w'. createArticle mock_env
      (no_input\<lparr>in_contentIds := Some [''00000000000000a1'', ''ffffffffffffffff'', ''00000000000000a1''],
                 in_instructions := Some ''casual''\<rparr>)
      mock_config world1 = (Inr r, w') \<and>
     user_field ''contentType'' r = Some (JStr ''article'')"
  by (simp add: createArticle_def no_input_def run_defs getContent_def storage_mock mock_credential
      mock_env_fields world1_def key_simps generateId_def setArticle_def getArticleIndex_def
      setArticleIndex_def elements_def js_str_def or_str_def or_opt_def truthy_def user_field_def
      passthrough_result_def mock_id_not_index STORAGE_KEYS_article_def STORAGE_KEYS_articleIndex_def
      STORAGE_KEYS_content_def STORAGE_KEYS_contentIndex_def)


theorem createArticle_stores_input_ids_witness:
  "in_contentIds (no_input\<lparr>in_contentIds := Some [''00000000000000a1'', ''ffffffffffffffff'', ''00000000000000a1''],
                 in_instructions := Some ''casual''\<rparr>)
     = Some [''00000000000000a1'', ''ffffffffffffffff'', ''00000000000000a1''] \<and>
   (\<exists>r w' a.
      createArticle mock_env
        (no_input\<lparr>in_contentIds := Some [''00000000000000a1'', ''ffffffffffffffff'', ''00000000000000a1''],
                   in_instructions := Some ''casual''\<rparr>)
        mock_config world1 = (Inr r, w') \<and>
      user_field ''contentType'' r = Some (JStr ''article'') \<and>
      data w' (STORAGE_KEYS_article (a_id a)) = Some (VArticle a) \<and>
      a_sourceContentIds a = [''00000000000000a1'', ''ffffffffffffffff'', ''00000000000000a1''])"
proof -
  let ?input = "no_input\<lparr>in_contentIds := Some [''00000000000000a1'', ''ffffffffffffffff'', ''00000000000000a1''],
                   in_instructions := Some ''casual''\<rparr>"
  have i: "in_contentIds ?input = Some [''00000000000000a1'', ''ffffffffffffffff'', ''00000000000000a1'']"
    by (simp add: no_input_def)
  from createArticle_world1 obtain r w' where
    run: "createArticle mock_env ?input mock_config world1 = (Inr r, w')" and
    ok: "user_field ''contentType'' r = Some (JStr ''article'')"
    by blast
  from createArticle_stores_input_ids [OF i run ok] run ok i show ?thesis
    by blast
qed

text \<open>
  C5, at the failing input: the supplied id \<^verbatim>\<open>index\<close> resolves to no stored content
  piece, so the passthrough error and no write is what the call should give. The key of that id is
  the key \<^verbatim>\<open>content:index\<close> of the content index, so \<^verbatim>\<open>getContent\<close> finds the index,
  the loop takes it for a source, and (with a credential) an article is written and
  entered in the article index.
\<close>

theorem createArticle_index_id_writes_article:
  "stored_piece (data world1) ''index'' = None \<and>
   createArticle mock_env (no_input\<lparr>in_contentIds := Some [''index''], in_instructions := Some ''casual''\<rparr>)
       mock_config world1 =
     (Inr \<lparr>responseMode = Passthrough, agentData = None,
           userContent = Some
             [(''contentType'', JStr ''article''),
              (''content'', JStr (''# Untitled Article'' @ nl @ nl @ ''A short summary.'')),
              (''metadata'', JObj [(''articleId'', JStr ''0000000000000002''),
                                   (''title'', JStr ''Untitled Article'')])]\<rparr>,
      world1\<lparr>data := (data world1)
                (STORAGE_KEYS_article ''0000000000000002'' \<mapsto>
                   VArticle \<lparr>a_id = ''0000000000000002'', a_title = ''Untitled Article'',
                             a_content = ''A short summary.'', a_sourceContentIds = [''index''],
                             a_instructions = Some ''casual'', a_version = 1,
                             a_createdAt = ''2025-01-01T00:00:03.000Z'',
                             a_updatedAt = ''2025-01-01T00:00:04.000Z''\<rparr>,
                 STORAGE_KEYS_articleIndex \<mapsto> VIds [''0000000000000002'']),
              tick := 8\<rparr>)"
proof -
  have a: "stored_piece (data world1) ''index'' = None"
    by (simp add: stored_piece_def world1_def index_key_is_record_key)
  have c: "createArticle mock_env (no_input\<lparr>in_contentIds := Some [''index''], in_instructions := Some ''casual''\<rparr>)
       mock_config world1 =
     (Inr \<lparr>responseMode = Passthrough, agentData = None,
           userContent = Some
             [(''contentType'', JStr ''article''),
              (''content'', JStr (''# Untitled Article'' @ nl @ nl @ ''A short summary.'')),
              (''metadata'', JObj [(''articleId'', JStr ''0000000000000002''),
                                   (''title'', JStr ''Untitled Article'')])]\<rparr>,
      world1\<lparr>data := (data world1)
                (STORAGE_KEYS_article ''0000000000000002'' \<mapsto>
                   VArticle \<lparr>a_id = ''0000000000000002'', a_title = ''Untitled Article'',
                             a_content = ''A short summary.'', a_sourceContentIds = [''index''],
                             a_instructions = Some ''casual'', a_version = 1,
                             a_createdAt = ''2025-01-01T00:00:03.000Z'',
                             a_updatedAt = ''2025-01-01T00:00:04.000Z''\<rparr>,
                 STORAGE_KEYS_articleIndex \<mapsto> VIds [''0000000000000002'']),
              tick := 8\<rparr>)"
    by (simp add: createArticle_def no_input_def run_defs getContent_def storage_mock mock_credential
        mock_env_fields world1_def index_key_is_record_key generateId_def setArticle_def
        getArticleIndex_def setArticleIndex_def elements_def array_value_def js_str_def or_str_def
        or_opt_def truthy_def passthrough_result_def
        STORAGE_KEYS_article_def STORAGE_KEYS_articleIndex_def
        STORAGE_KEYS_content_def STORAGE_KEYS_contentIndex_def mock_clock)
  from a c show ?thesis by (intro conjI)
qed

lemma resolved_nonempty:
  "resolved d ids \<noteq> [] \<longleftrightarrow> (\<exists>i\<in>set ids. d (STORAGE_KEYS_content i) \<noteq> None)"
  using resolved_empty [of d ids] by auto


text \<open>
  What \<^verbatim>\<open>createArticle\<close> does, in terms of what the keys of the supplied ids hold. If
  no key holds a value (the storage answering), it returns the passthrough error
  \<^verbatim>\<open>No valid content pieces found\<close> and the store is unchanged. If a key holds a value
  and the call returns, it returns the article result and the store has changed in
  exactly one article, of version 1, written under its key and entered in the article
  index. If a key holds a value and no credential is configured, the call throws
  \<^verbatim>\<open>OPENAI_API_KEY not configured\<close> and the store is unchanged.
\<close>

lemma createArticle_by_stored_values:
  "(reliable E \<and> in_contentIds input = Some contentIds \<and>
    (\<forall>i\<in>set contentIds. data w (STORAGE_KEYS_content i) = None) \<longrightarrow>
      (\<exists>w1. createArticle E input config w =
               (Inr (passthrough_error ''No valid content pieces found''), w1) \<and>
            data w1 = data w)) \<and>
   (in_contentIds input = Some contentIds \<and>
    (\<exists>i\<in>set contentIds. data w (STORAGE_KEYS_content i) \<noteq> None) \<and>
    createArticle E input config w = (Inr r, w') \<longrightarrow>
      (\<exists>a. a_version a = 1 \<and> a_id a \<noteq> ''index'' \<and>
          user_field ''contentType'' r = Some (JStr ''article'') \<and>
          data w' (STORAGE_KEYS_article (a_id a)) = Some (VArticle a) \<and>
          (\<forall>k. k \<noteq> STORAGE_KEYS_article (a_id a) \<longrightarrow> k \<noteq> STORAGE_KEYS_articleIndex \<longrightarrow>
               data w' k = data w k) \<and>
          index_gains (Some (a_id a)) (data w) (data w'))) \<and>
   (reliable E \<and> in_contentIds input = Some contentIds \<and>
    (\<exists>i\<in>set contentIds. data w (STORAGE_KEYS_content i) \<noteq> None) \<and> \<not> credential E config \<longrightarrow>
      (\<exists>w1. createArticle E input config w = (Inl (Error ''OPENAI_API_KEY not configured''), w1) \<and>
            data w1 = data w))"
proof (intro conjI impI)
  assume "reliable E \<and> in_contentIds input = Some contentIds \<and>
    (\<forall>i\<in>set contentIds. data w (STORAGE_KEYS_content i) = None)"
  then have "createArticle E input config w =
     (Inr (passthrough_error ''No valid content pieces found''), w\<lparr>tick := tick w + length contentIds\<rparr>)"
    by (auto intro!: createArticle_none_resolve simp: resolved_empty)
  then show "\<exists>w1. createArticle E input config w =
               (Inr (passthrough_error ''No valid content pieces found''), w1) \<and>
            data w1 = data w"
    by simp
next
  assume h: "in_contentIds input = Some contentIds \<and>
    (\<exists>i\<in>set contentIds. data w (STORAGE_KEYS_content i) \<noteq> None) \<and>
    createArticle E input config w = (Inr r, w')"
  then have ne: "resolved (data w) contentIds \<noteq> []"
    by (simp add: resolved_nonempty)
  from h have ids: "in_contentIds input = Some contentIds"
    and run: "createArticle E input config w = (Inr r, w')"
    by simp_all
  let ?a = "\<lambda>message. created_article E input contentIds message (Suc (tick w + length contentIds))"
  from createArticle_Inr [OF ids run] ne obtain message where
    "a_id (?a message) \<noteq> ''index''"
    "data w' (STORAGE_KEYS_article (a_id (?a message))) = Some (VArticle (?a message))"
    "\<forall>k. k \<noteq> STORAGE_KEYS_article (a_id (?a message)) \<longrightarrow> k \<noteq> STORAGE_KEYS_articleIndex \<longrightarrow>
         data w' k = data w k"
    "index_gains (Some (a_id (?a message))) (data w) (data w')"
    "user_field ''contentType'' r = Some (JStr ''article'')"
    by (auto simp: Let_def user_field_def passthrough_result_def)
  moreover have "a_version (?a message) = 1"
    by (simp add: created_article_def)
  ultimately show "\<exists>a. a_version a = 1 \<and> a_id a \<noteq> ''index'' \<and>
          user_field ''contentType'' r = Some (JStr ''article'') \<and>
          data w' (STORAGE_KEYS_article (a_id a)) = Some (VArticle a) \<and>
          (\<forall>k. k \<noteq> STORAGE_KEYS_article (a_id a) \<longrightarrow> k \<noteq> STORAGE_KEYS_articleIndex \<longrightarrow>
               data w' k = data w k) \<and>
          index_gains (Some (a_id a)) (data w) (data w')"
    by blast
next
  assume h: "reliable E \<and> in_contentIds input = Some contentIds \<and>
    (\<exists>i\<in>set contentIds. data w (STORAGE_KEYS_content i) \<noteq> None) \<and> \<not> credential E config"
  then have "resolved (data w) contentIds \<noteq> []"
    by (simp add: resolved_nonempty)
  with h have "createArticle E input config w =
     (Inl (Error ''OPENAI_API_KEY not configured''), w\<lparr>tick := tick w + length contentIds\<rparr>)"
    by (intro createArticle_no_credential) simp_all
  then show "\<exists>w1. createArticle E input config w = (Inl (Error ''OPENAI_API_KEY not configured''), w1) \<and>
            data w1 = data w"
    by simp
qed

text \<open>
  With no credential the call throws although the id resolves to a content piece, and
  no article is written.
\<close>

lemma createArticle_without_credential:
  "data world1 (STORAGE_KEYS_content ''00000000000000a1'') = Some (VPiece piece1) \<and>
   createArticle mock_env (no_input\<lparr>in_contentIds := Some [''00000000000000a1'']\<rparr>) None world1 =
     (Inl (Error ''OPENAI_API_KEY not configured''), world1\<lparr>tick := 1\<rparr>) \<and>
   data (world1\<lparr>tick := 1\<rparr>) = data world1"
  using createArticle_no_key_world1 by (simp add: world1_def key_simps)




lemma io_bind_any:
  assumes "io_bind m f w = (res, w')"
  obtains (fail) e where "m w = (Inl e, w')" "res = Inl e"
  | (ok) x w1 where "m w = (Inr x, w1)" "f x w1 = (res, w')"
  using assms by (auto simp: io_bind_def split: prod.splits sum.splits)































end
